theory Spec2Isabelle
  imports Main
begin

section \<open>The /search handler of main.py\<close>

text \<open>
  The repository is one request handler, \<^verbatim>\<open>search(query)\<close> in \<^verbatim>\<open>src/main.py\<close>. It reads
  five environment variables, validates two of them, and then drives a remote agent
  platform through a fixed sequence of SDK calls inside one \<^verbatim>\<open>try\<close> block.

  Strings are \<open>string\<close>; a character stands for one code point below 256. A value that
  Python may hold as \<^verbatim>\<open>None\<close> is an \<open>option\<close>. A Python exception is a value of \<open>exn\<close>, and
  a call that may raise returns \<open>exn + 'a\<close>. The remote platform is a record of operations
  over a state \<open>'s\<close> of its own; every operation the handler invokes is appended, with its
  answer, to a trace of events, so that what was and was not called can be stated.
\<close>

subsection \<open>Python values\<close>

text \<open>\<^verbatim>\<open>os.environ\<close>: \<^verbatim>\<open>os.environ.get(k)\<close> is \<^verbatim>\<open>None\<close> for an unset key.\<close>

type_synonym environ = "string \<rightharpoonup> string"

text \<open>
  Instances of \<^verbatim>\<open>Exception\<close>. \<open>EnvironmentError\<close> is the one the handler raises itself;
  \<open>Exception\<close> is any other one, carried with its message. \<open>str\<close> is \<^verbatim>\<open>str(e)\<close>.
\<close>

datatype exn = EnvironmentError string | Exception string

fun str :: "exn \<Rightarrow> string" where
  "str (EnvironmentError m) = m"
| "str (Exception m) = m"

text \<open>The values of the dictionaries the handler returns: a string or \<^verbatim>\<open>None\<close>.\<close>

datatype jvalue = JNone | JStr string

type_synonym payload = "(string \<times> jvalue) list"

text \<open>\<^verbatim>\<open>not x\<close> for an optional string: \<^verbatim>\<open>None\<close> and \<^verbatim>\<open>""\<close> are falsy.\<close>

fun falsy :: "string option \<Rightarrow> bool" where
  "falsy None = True"
| "falsy (Some s) = (s = [])"

text \<open>\<^verbatim>\<open>sep.join(xs)\<close>.\<close>

fun join :: "string \<Rightarrow> string list \<Rightarrow> string" where
  "join sep [] = []"
| "join sep [x] = x"
| "join sep (x # y # ys) = x @ sep @ join sep (y # ys)"

text \<open>
  \<^verbatim>\<open>s.strip()\<close>: the characters \<^verbatim>\<open>str.isspace\<close> accepts among the code points below 256
  are 9 to 13, 28 to 32, 133 and 160.
\<close>

definition isspace :: "char \<Rightarrow> bool" where
  "isspace c = (let n = (of_char c :: nat) in
     (9 \<le> n \<and> n \<le> 13) \<or> (28 \<le> n \<and> n \<le> 32) \<or> n = 133 \<or> n = 160)"

definition strip :: "string \<Rightarrow> string" where
  "strip s = rev (dropWhile isspace (rev (dropWhile isspace s)))"

subsection \<open>The objects of the platform\<close>

record connection =
  connection_id :: string

text \<open>
  The name of an agent is optional: \<^verbatim>\<open>create_agent\<close> takes \<^verbatim>\<open>name=None\<close> (the handler passes
  what \<^verbatim>\<open>os.environ.get("AGENT_NAME")\<close> gave), and an agent made so has the name \<^verbatim>\<open>None\<close>.
\<close>

record agent =
  agent_id :: string
  agent_name :: "string option"

record thread =
  thread_id :: string

text \<open>
  A content block of a message is read as a mapping: \<^verbatim>\<open>'text' in item\<close>,
  \<^verbatim>\<open>'value' in item['text']\<close>, \<^verbatim>\<open>item['text']['value']\<close>. \<open>item_text\<close> is \<open>None\<close> for a
  block without the key \<^verbatim>\<open>text\<close> (an image, say), and \<open>text_value\<close> is \<open>None\<close> for a text
  without the key \<^verbatim>\<open>value\<close>.
\<close>

datatype text_details = TextDetails (text_value: "string option")

datatype content_item = ContentItem (item_text: "text_details option")

text \<open>
  \<open>created_at\<close> is the time the platform made the message. The handler never reads it; it
  is here to say which of two messages is the more recent one.
\<close>

record message =
  message_id :: string
  role :: string
  content :: "content_item list"
  created_at :: int

text \<open>
  \<open>last_error\<close> is \<open>None\<close> when the run object has no such attribute, and otherwise the
  attribute's value as \<^verbatim>\<open>str\<close> renders it.
\<close>

record run =
  run_id :: string
  run_status :: string
  last_error :: "string option"

text \<open>\<^verbatim>\<open>BingGroundingTool(connection_id=...).definitions\<close>.\<close>

datatype tool_definition = BingGrounding string

text \<open>The keyword arguments of \<^verbatim>\<open>create_agent\<close>.\<close>

record agent_args =
  arg_model :: string
  arg_name :: "string option"
  arg_instructions :: "string option"
  arg_tools :: "tool_definition list"
  arg_headers :: "(string \<times> string) list"
  arg_temperature :: int

subsection \<open>The platform and the trace\<close>

record 's platform =
  default_credential :: "'s \<Rightarrow> (exn + unit) \<times> 's"
  project_client :: "string \<Rightarrow> 's \<Rightarrow> (exn + unit) \<times> 's"
  client_enter :: "'s \<Rightarrow> (exn + unit) \<times> 's"
  client_exit :: "'s \<Rightarrow> (exn + unit) \<times> 's"
  connections_get :: "string \<Rightarrow> 's \<Rightarrow> (exn + connection) \<times> 's"
  list_agents :: "'s \<Rightarrow> (exn + agent list) \<times> 's"
  create_agent :: "agent_args \<Rightarrow> 's \<Rightarrow> (exn + agent) \<times> 's"
  threads_create :: "'s \<Rightarrow> (exn + thread) \<times> 's"
  messages_create :: "string \<Rightarrow> string \<Rightarrow> string \<Rightarrow> 's \<Rightarrow> (exn + message) \<times> 's"
  runs_create :: "string \<Rightarrow> string \<Rightarrow> 's \<Rightarrow> (exn + run) \<times> 's"
  runs_get :: "string \<Rightarrow> string \<Rightarrow> 's \<Rightarrow> (exn + run) \<times> 's"
  messages_list :: "string \<Rightarrow> 's \<Rightarrow> (exn + message list) \<times> 's"

text \<open>One event per call the handler makes: the arguments, then what came back.\<close>

datatype event =
    DefaultAzureCredential "exn + unit"
  | AIProjectClient string "exn + unit"
  | ClientEnter "exn + unit"
  | ClientExit "exn + unit"
  | ConnectionsGet string "exn + connection"
  | ListAgents "exn + agent list"
  | CreateAgent agent_args "exn + agent"
  | ThreadsCreate "exn + thread"
  | MessagesCreate string string string "exn + message"
  | RunsCreate string string "exn + run"
  | Sleep nat
  | RunsGet string string "exn + run"
  | MessagesList string "exn + message list"

type_synonym 's world = "'s \<times> event list"

type_synonym ('s, 'a) prog = "'s world \<Rightarrow> (exn + 'a) \<times> 's world"

definition return :: "'a \<Rightarrow> ('s, 'a) prog" where
  "return x w = (Inr x, w)"

definition raise :: "exn \<Rightarrow> ('s, 'a) prog" where
  "raise e w = (Inl e, w)"

text \<open>Sequencing: an exception of the first part skips the rest.\<close>

definition and_then :: "('s, 'a) prog \<Rightarrow> ('a \<Rightarrow> ('s, 'b) prog) \<Rightarrow> ('s, 'b) prog" where
  "and_then m k w = (case m w of (Inl e, w') \<Rightarrow> (Inl e, w') | (Inr x, w') \<Rightarrow> k x w')"

text \<open>\<^verbatim>\<open>try: m  except Exception as e: h(e)\<close>.\<close>

definition try_except :: "('s, 'a) prog \<Rightarrow> (exn \<Rightarrow> ('s, 'a) prog) \<Rightarrow> ('s, 'a) prog" where
  "try_except m h w = (case m w of (Inl e, w') \<Rightarrow> h e w' | (Inr x, w') \<Rightarrow> (Inr x, w'))"

text \<open>A call of the platform: run the operation on the platform's state and log it.\<close>

definition remote :: "(exn + 'a \<Rightarrow> event) \<Rightarrow> ('s \<Rightarrow> (exn + 'a) \<times> 's) \<Rightarrow> ('s, 'a) prog" where
  "remote ev f w = (case w of (s, tr) \<Rightarrow> (case f s of (r, s') \<Rightarrow> (r, (s', tr @ [ev r]))))"

text \<open>\<^verbatim>\<open>time.sleep(n)\<close>: it changes nothing and is only logged.\<close>

definition pause :: "nat \<Rightarrow> ('s, unit) prog" where
  "pause n w = (case w of (s, tr) \<Rightarrow> (Inr (), (s, tr @ [Sleep n])))"

text \<open>
  \<^verbatim>\<open>with cm: body\<close>, for a context manager whose \<^verbatim>\<open>__exit__\<close> returns \<^verbatim>\<open>None\<close>: the exit runs
  however the body ends, and an exception of the exit replaces the body's result.
\<close>

definition with_stmt :: "('s, unit) prog \<Rightarrow> ('s, unit) prog \<Rightarrow> ('s, 'a) prog \<Rightarrow> ('s, 'a) prog" where
  "with_stmt enter exit body =
     and_then enter (\<lambda>_ w.
       case body w of (r, w') \<Rightarrow>
         (case exit w' of (Inl e, w'') \<Rightarrow> (Inl e, w'') | (Inr _, w'') \<Rightarrow> (r, w'')))"

subsection \<open>The handler\<close>

text \<open>Lines 43 to 47: the names of the required variables that are unset or empty.\<close>

definition missing_vars :: "environ \<Rightarrow> string list" where
  "missing_vars env =
     (if falsy (env ''PROJECT_CONNECTION_STRING'') then [''PROJECT_CONNECTION_STRING''] else []) @
     (if falsy (env ''BING_RESOURCE_NAME'') then [''BING_RESOURCE_NAME''] else [])"

text \<open>Line 83: \<^verbatim>\<open>next((a for a in agents_list if a.name == agent_name), None)\<close>.\<close>

definition find_agent :: "agent list \<Rightarrow> string option \<Rightarrow> agent option" where
  "find_agent agents_list name = find (\<lambda>a. agent_name a = name) agents_list"

text \<open>Line 153: \<^verbatim>\<open>next((m for m in reversed(messages_list) if m.role == "assistant"), None)\<close>.\<close>

definition last_assistant :: "message list \<Rightarrow> message option" where
  "last_assistant msgs = find (\<lambda>m. role m = ''assistant'') (rev msgs)"

text \<open>Line 158: the test that guards the accumulation, and the value it then reads.\<close>

fun item_value :: "content_item \<Rightarrow> string option" where
  "item_value (ContentItem None) = None"
| "item_value (ContentItem (Some (TextDetails None))) = None"
| "item_value (ContentItem (Some (TextDetails (Some v)))) = (if v = [] then None else Some v)"

text \<open>Lines 155 to 159: the loop over the content of the selected message.\<close>

definition assistant_text :: "message option \<Rightarrow> string" where
  "assistant_text last_msg =
     (case last_msg of
        None \<Rightarrow> []
      | Some m \<Rightarrow>
          foldl (\<lambda>acc item. case item_value item of
                               None \<Rightarrow> acc
                             | Some v \<Rightarrow> acc @ v @ [CHR 0x0A])
            [] (content m))"

text \<open>\<^verbatim>\<open>x or None\<close> for a string.\<close>

definition or_none :: "string \<Rightarrow> jvalue" where
  "or_none s = (if s = [] then JNone else JStr s)"

text \<open>Lines 66 to 186: the body of the \<^verbatim>\<open>with\<close> statement.\<close>

definition with_body ::
  "'s platform \<Rightarrow> string \<Rightarrow> string option \<Rightarrow> string option \<Rightarrow> string \<Rightarrow> string
     \<Rightarrow> ('s, payload) prog" where
  "with_body p bing_connection_name name instructions agent_llm query =
     and_then (remote (ConnectionsGet bing_connection_name)
                 (connections_get p bing_connection_name)) (\<lambda>bing_connection.
     and_then (remote ListAgents (list_agents p)) (\<lambda>agents_list.
     and_then (case find_agent agents_list name of
                 Some a \<Rightarrow> return a
               | None \<Rightarrow>
                   (let args = \<lparr>arg_model = agent_llm, arg_name = name,
                                 arg_instructions = instructions,
                                 arg_tools = [BingGrounding (connection_id bing_connection)],
                                 arg_headers = [(''x-ms-enable-preview'', ''true'')],
                                 arg_temperature = 0\<rparr>
                    in remote (CreateAgent args) (create_agent p args))) (\<lambda>agent.
     and_then (remote ThreadsCreate (threads_create p)) (\<lambda>thread.
     and_then (remote (MessagesCreate (thread_id thread) ''user'' query)
                 (messages_create p (thread_id thread) ''user'' query)) (\<lambda>user_message.
     and_then (remote (RunsCreate (thread_id thread) (agent_id agent))
                 (runs_create p (thread_id thread) (agent_id agent))) (\<lambda>run0.
     and_then (pause 7) (\<lambda>_.
     and_then (try_except
                 (remote (RunsGet (thread_id thread) (run_id run0))
                    (runs_get p (thread_id thread) (run_id run0)))
                 (\<lambda>e. return run0)) (\<lambda>run.
     if run_status run = ''failed'' then
       return [(''query'', JStr query),
               (''status'', JStr (run_status run)),
               (''error'', JStr (case last_error run of
                                   None \<Rightarrow> ''Unknown error'' | Some err \<Rightarrow> err))]
     else
       and_then (remote (MessagesList (thread_id thread))
                   (messages_list p (thread_id thread))) (\<lambda>msgs.
       let answer = strip (assistant_text (last_assistant msgs)) in
       return [(''query'', JStr query),
               (''agent_id'', JStr (agent_id agent)),
               (''thread_id'', JStr (thread_id thread)),
               (''run_id'', JStr (run_id run)),
               (''run_status'', JStr (run_status run)),
               (''assistant_response'', or_none answer)])))))))))"

text \<open>
  Lines 37 to 189. The validation and its \<^verbatim>\<open>raise\<close> come before the \<^verbatim>\<open>try\<close>; the
  \<^verbatim>\<open>except Exception\<close> clause covers the construction of the client and the \<^verbatim>\<open>with\<close>
  statement.
\<close>

definition search :: "'s platform \<Rightarrow> environ \<Rightarrow> string \<Rightarrow> ('s, payload) prog" where
  "search p env query =
     (let project_conn_str = env ''PROJECT_CONNECTION_STRING'';
          bing_connection_name = env ''BING_RESOURCE_NAME'';
          name = env ''AGENT_NAME'';
          instructions = env ''AGENT_INSTRUCTIONS'';
          agent_llm = (case env ''MODEL_DEPLOYMENT_NAME'' of None \<Rightarrow> ''gpt-4.1'' | Some m \<Rightarrow> m)
      in if missing_vars env \<noteq> [] then
           raise (EnvironmentError
                    (''Missing environment variable(s): '' @ join '', '' (missing_vars env)))
         else
           try_except
             (and_then (remote DefaultAzureCredential (default_credential p)) (\<lambda>credential.
              and_then (remote (AIProjectClient (the project_conn_str))
                          (project_client p (the project_conn_str))) (\<lambda>client.
              with_stmt (remote ClientEnter (client_enter p)) (remote ClientExit (client_exit p))
                (with_body p (the bing_connection_name) name instructions agent_llm query))))
             (\<lambda>e. return [(''error'', JStr (str e))]))"

subsection \<open>Reading a run of the handler\<close>

text \<open>
  \<open>wp m Q w\<close>: running \<open>m\<close> from the world \<open>w\<close> ends in a result and a world that satisfy
  \<open>Q\<close>. Every program here is a total function, so this is total correctness.
\<close>

definition wp :: "('s, 'a) prog \<Rightarrow> (exn + 'a \<Rightarrow> 's world \<Rightarrow> bool) \<Rightarrow> 's world \<Rightarrow> bool" where
  "wp m Q w = (case m w of (r, w') \<Rightarrow> Q r w')"

text \<open>
  The exception an event hands to the code around it. The one of \<^verbatim>\<open>runs.get\<close> is caught
  by the inner \<^verbatim>\<open>except\<close> of lines 123 to 127, and \<^verbatim>\<open>time.sleep\<close> has none.
\<close>

fun answer_error :: "exn + 'a \<Rightarrow> exn option" where
  "answer_error (Inl e) = Some e"
| "answer_error (Inr x) = None"

fun escaping :: "event \<Rightarrow> exn option" where
  "escaping (DefaultAzureCredential r) = answer_error r"
| "escaping (AIProjectClient endpoint r) = answer_error r"
| "escaping (ClientEnter r) = answer_error r"
| "escaping (ClientExit r) = answer_error r"
| "escaping (ConnectionsGet n r) = answer_error r"
| "escaping (ListAgents r) = answer_error r"
| "escaping (CreateAgent args r) = answer_error r"
| "escaping (ThreadsCreate r) = answer_error r"
| "escaping (MessagesCreate t ro c r) = answer_error r"
| "escaping (RunsCreate t a r) = answer_error r"
| "escaping (Sleep n) = None"
| "escaping (RunsGet t i r) = None"
| "escaping (MessagesList t r) = answer_error r"

text \<open>The operation an event is a call of.\<close>

fun call_name :: "event \<Rightarrow> string" where
  "call_name (DefaultAzureCredential r) = ''DefaultAzureCredential''"
| "call_name (AIProjectClient endpoint r) = ''AIProjectClient''"
| "call_name (ClientEnter r) = ''__enter__''"
| "call_name (ClientExit r) = ''__exit__''"
| "call_name (ConnectionsGet n r) = ''connections.get''"
| "call_name (ListAgents r) = ''agents.list_agents''"
| "call_name (CreateAgent args r) = ''agents.create_agent''"
| "call_name (ThreadsCreate r) = ''agents.threads.create''"
| "call_name (MessagesCreate t ro c r) = ''agents.messages.create''"
| "call_name (RunsCreate t a r) = ''agents.runs.create''"
| "call_name (Sleep n) = ''time.sleep''"
| "call_name (RunsGet t i r) = ''agents.runs.get''"
| "call_name (MessagesList t r) = ''agents.messages.list''"

text \<open>The keys of the dictionary of lines 179 to 186.\<close>

definition success_keys :: "string list" where
  "success_keys =
     [''query'', ''agent_id'', ''thread_id'', ''run_id'', ''run_status'', ''assistant_response'']"

subsection \<open>An in-memory platform\<close>

text \<open>
  A platform to run the handler on: it keeps the agents it has and counts the threads it
  has made, so that every new thread and every new agent gets an id of its own. What
  \<^verbatim>\<open>runs.create\<close>, \<^verbatim>\<open>runs.get\<close> and \<^verbatim>\<open>messages.list\<close> answer is given from outside.
\<close>

record stub_state =
  stub_agents :: "agent list"
  stub_threads :: nat

definition text_message :: "string \<Rightarrow> string \<Rightarrow> int \<Rightarrow> message" where
  "text_message r txt t =
     \<lparr>message_id = ''msg'', role = r,
      content = [ContentItem (Some (TextDetails (Some txt)))], created_at = t\<rparr>"

definition stub :: "run \<Rightarrow> exn + run \<Rightarrow> exn + message list \<Rightarrow> stub_state platform" where
  "stub started refreshed listing =
     \<lparr>default_credential = (\<lambda>s. (Inr (), s)),
      project_client = (\<lambda>endpoint s. (Inr (), s)),
      client_enter = (\<lambda>s. (Inr (), s)),
      client_exit = (\<lambda>s. (Inr (), s)),
      connections_get = (\<lambda>n s. (Inr \<lparr>connection_id = ''conn-'' @ n\<rparr>, s)),
      list_agents = (\<lambda>s. (Inr (stub_agents s), s)),
      create_agent = (\<lambda>args s.
        let a = \<lparr>agent_id = ''agent-'' @ replicate (length (stub_agents s)) CHR ''i'',
                 agent_name = arg_name args\<rparr>
        in (Inr a, s\<lparr>stub_agents := stub_agents s @ [a]\<rparr>)),
      threads_create = (\<lambda>s.
        (Inr \<lparr>thread_id = ''thread-'' @ replicate (stub_threads s) CHR ''i''\<rparr>,
         s\<lparr>stub_threads := Suc (stub_threads s)\<rparr>)),
      messages_create = (\<lambda>t r c s. (Inr (text_message r c 0), s)),
      runs_create = (\<lambda>t a s. (Inr started, s)),
      runs_get = (\<lambda>t i s. (refreshed, s)),
      messages_list = (\<lambda>t s. (listing, s))\<rparr>"

definition stub_env :: environ where
  "stub_env = [''PROJECT_CONNECTION_STRING'' \<mapsto> ''https://project.example'',
               ''BING_RESOURCE_NAME'' \<mapsto> ''bing'',
               ''AGENT_NAME'' \<mapsto> ''searcher'',
               ''AGENT_INSTRUCTIONS'' \<mapsto> ''Answer from the web.'']"

text \<open>A run object with the given status and last error, and a platform state to start from.\<close>

definition stub_run :: "string \<Rightarrow> string option \<Rightarrow> run" where
  "stub_run st err = \<lparr>run_id = ''run'', run_status = st, last_error = err\<rparr>"

definition stub_start :: "agent list \<Rightarrow> stub_state" where
  "stub_start agents = \<lparr>stub_agents = agents, stub_threads = 0\<rparr>"

text \<open>
  Requests against this platform. The run fails with the last error \<^verbatim>\<open>rate_limited\<close>:
\<close>

definition request_rate_limited :: "(exn + payload) \<times> stub_state world" where
  "request_rate_limited =
     search (stub (stub_run ''queued'' None)
               (Inr (stub_run ''failed'' (Some ''rate_limited''))) (Inr []))
       stub_env ''capital of France?'' (stub_start [], [])"

text \<open>Three agents exist, the second and the third with the configured name:\<close>

definition request_existing_agent :: "(exn + payload) \<times> stub_state world" where
  "request_existing_agent =
     search (stub (stub_run ''queued'' None) (Inr (stub_run ''completed'' None))
               (Inr [text_message ''user'' ''capital of France?'' 1,
                     text_message ''assistant'' ''Paris.'' 2]))
       stub_env ''capital of France?''
       (stub_start [\<lparr>agent_id = ''a0'', agent_name = Some ''other''\<rparr>,
                    \<lparr>agent_id = ''a1'', agent_name = Some ''searcher''\<rparr>,
                    \<lparr>agent_id = ''a2'', agent_name = Some ''searcher''\<rparr>], [])"

text \<open>
  No agent exists, the run completes, and the thread holds one assistant message after
  the user's:
\<close>

definition request_paris :: "(exn + payload) \<times> stub_state world" where
  "request_paris =
     search (stub (stub_run ''queued'' None) (Inr (stub_run ''completed'' None))
               (Inr [text_message ''user'' ''capital of France?'' 1,
                     text_message ''assistant'' ''  Paris is the capital of France.'' 2]))
       stub_env ''capital of France?'' (stub_start [], [])"

text \<open>
  The listing comes newest first, as a service that sorts by descending creation time
  sends it, and holds two assistant messages:
\<close>

definition request_newest_first :: "(exn + payload) \<times> stub_state world" where
  "request_newest_first =
     search (stub (stub_run ''queued'' None) (Inr (stub_run ''completed'' None))
               (Inr [text_message ''assistant'' ''new answer'' 3,
                     text_message ''assistant'' ''old answer'' 2,
                     text_message ''user'' ''capital of France?'' 1]))
       stub_env ''capital of France?'' (stub_start [], [])"

text \<open>The same, the newer assistant message holding an image only:\<close>

definition request_newest_image :: "(exn + payload) \<times> stub_state world" where
  "request_newest_image =
     search (stub (stub_run ''queued'' None) (Inr (stub_run ''completed'' None))
               (Inr [\<lparr>message_id = ''msg'', role = ''assistant'',
                       content = [ContentItem None], created_at = 3\<rparr>,
                     text_message ''assistant'' ''old answer'' 2,
                     text_message ''user'' ''capital of France?'' 1]))
       stub_env ''capital of France?'' (stub_start [], [])"

text \<open>The thread holds the user's message only:\<close>

definition request_no_assistant :: "(exn + payload) \<times> stub_state world" where
  "request_no_assistant =
     search (stub (stub_run ''queued'' None) (Inr (stub_run ''completed'' None))
               (Inr [text_message ''user'' ''capital of France?'' 1]))
       stub_env ''capital of France?'' (stub_start [], [])"

text \<open>The last assistant message of the listing holds an image and an empty text:\<close>

definition request_image_only :: "(exn + payload) \<times> stub_state world" where
  "request_image_only =
     search (stub (stub_run ''queued'' None) (Inr (stub_run ''completed'' None))
               (Inr [text_message ''user'' ''capital of France?'' 1,
                     \<lparr>message_id = ''msg'', role = ''assistant'',
                       content = [ContentItem None, ContentItem (Some (TextDetails (Some '''')))],
                       created_at = 2\<rparr>]))
       stub_env ''capital of France?'' (stub_start [], [])"

text \<open>The refresh raises; the run that \<^verbatim>\<open>runs.create\<close> returned had failed, or was queued:\<close>

definition request_stale_failed :: "(exn + payload) \<times> stub_state world" where
  "request_stale_failed =
     search (stub (stub_run ''failed'' (Some ''rate_limited''))
               (Inl (Exception ''refresh failed'')) (Inr []))
       stub_env ''capital of France?'' (stub_start [], [])"

definition request_stale_queued :: "(exn + payload) \<times> stub_state world" where
  "request_stale_queued =
     search (stub (stub_run ''queued'' None) (Inl (Exception ''refresh failed''))
               (Inr [text_message ''user'' ''capital of France?'' 1,
                     text_message ''assistant'' ''Paris.'' 2]))
       stub_env ''capital of France?'' (stub_start [], [])"

text \<open>Two requests one after the other, the agent being there from the start:\<close>

definition request_first :: "(exn + payload) \<times> stub_state world" where
  "request_first =
     search (stub (stub_run ''queued'' None) (Inr (stub_run ''completed'' None))
               (Inr [text_message ''user'' ''capital of France?'' 1,
                     text_message ''assistant'' ''Paris.'' 2]))
       stub_env ''capital of France?''
       (stub_start [\<lparr>agent_id = ''a1'', agent_name = Some ''searcher''\<rparr>], [])"

definition request_second :: "(exn + payload) \<times> stub_state world" where
  "request_second =
     search (stub (stub_run ''queued'' None) (Inr (stub_run ''completed'' None))
               (Inr [text_message ''user'' ''capital of France?'' 1,
                     text_message ''assistant'' ''Paris.'' 2]))
       stub_env ''capital of France?'' (fst (snd request_first), [])"

text \<open>
  Two requests one after the other with neither \<^verbatim>\<open>AGENT_NAME\<close> nor \<^verbatim>\<open>AGENT_INSTRUCTIONS\<close>
  set, the platform having one agent, which has a name:
\<close>

definition stub_env_unnamed :: environ where
  "stub_env_unnamed = [''PROJECT_CONNECTION_STRING'' \<mapsto> ''https://project.example'',
                       ''BING_RESOURCE_NAME'' \<mapsto> ''bing'']"

definition request_unnamed_first :: "(exn + payload) \<times> stub_state world" where
  "request_unnamed_first =
     search (stub (stub_run ''queued'' None) (Inr (stub_run ''completed'' None))
               (Inr [text_message ''user'' ''capital of France?'' 1,
                     text_message ''assistant'' ''Paris.'' 2]))
       stub_env_unnamed ''capital of France?''
       (stub_start [\<lparr>agent_id = ''a0'', agent_name = Some ''other''\<rparr>], [])"

definition request_unnamed_second :: "(exn + payload) \<times> stub_state world" where
  "request_unnamed_second =
     search (stub (stub_run ''queued'' None) (Inr (stub_run ''completed'' None))
               (Inr [text_message ''user'' ''capital of France?'' 1,
                     text_message ''assistant'' ''Paris.'' 2]))
       stub_env_unnamed ''capital of France?'' (fst (snd request_unnamed_first), [])"

section \<open>Properties\<close>

subsection \<open>Rules for reading a run\<close>

lemma wp_return: "wp (return x) Q w = Q (Inr x) w"
  by (simp add: wp_def return_def)

lemma wp_raise: "wp (raise e) Q w = Q (Inl e) w"
  by (simp add: wp_def raise_def)

lemma wp_and_then:
  "wp (and_then m k) Q w =
     wp m (\<lambda>r w'. case r of Inl e \<Rightarrow> Q (Inl e) w' | Inr x \<Rightarrow> wp (k x) Q w') w"
  by (simp add: wp_def and_then_def split: prod.splits sum.splits)

lemma wp_try_except:
  "wp (try_except m h) Q w =
     wp m (\<lambda>r w'. case r of Inl e \<Rightarrow> wp (h e) Q w' | Inr x \<Rightarrow> Q (Inr x) w') w"
  by (simp add: wp_def try_except_def split: prod.splits sum.splits)

lemma wp_remote:
  "wp (remote ev f) Q (s, tr) = (\<forall>r s'. f s = (r, s') \<longrightarrow> Q r (s', tr @ [ev r]))"
  by (simp add: wp_def remote_def split: prod.splits)

lemma wp_pause: "wp (pause n) Q (s, tr) = Q (Inr ()) (s, tr @ [Sleep n])"
  by (simp add: wp_def pause_def)

lemma wp_with_stmt:
  "wp (with_stmt en ex body) Q w =
     wp en (\<lambda>r w1. case r of
         Inl e \<Rightarrow> Q (Inl e) w1
       | Inr u \<Rightarrow> wp body (\<lambda>r2 w2. wp ex (\<lambda>r3 w3. case r3 of
                                 Inl e \<Rightarrow> Q (Inl e) w3 | Inr v \<Rightarrow> Q r2 w3) w2) w1) w"
  by (simp add: wp_def with_stmt_def and_then_def split: prod.splits sum.splits)

lemma wp_if: "wp (if c then a else b) Q w = (if c then wp a Q w else wp b Q w)"
  by simp

lemma wp_case_option:
  "wp (case opt of None \<Rightarrow> a | Some x \<Rightarrow> b x) Q w =
     (case opt of None \<Rightarrow> wp a Q w | Some x \<Rightarrow> wp (b x) Q w)"
  by (simp split: option.splits)

lemmas wp_rules = wp_return wp_raise wp_and_then wp_try_except wp_remote wp_pause
  wp_with_stmt wp_if wp_case_option

lemma wpD: "wp m Q w \<Longrightarrow> m w = (r, w') \<Longrightarrow> Q r w'"
  by (simp add: wp_def)

lemmas search_defs = search_def with_body_def Let_def

lemmas run_defs = search_defs and_then_def try_except_def remote_def pause_def with_stmt_def
  return_def raise_def

lemmas stub_defs = stub_def stub_env_def text_message_def missing_vars_def find_agent_def
  last_assistant_def assistant_text_def strip_def isspace_def or_none_def success_keys_def
  stub_run_def stub_start_def

subsection \<open>Facts about the pure parts\<close>

lemma missing_vars_Nil:
  "missing_vars env = [] \<longleftrightarrow>
     \<not> falsy (env ''PROJECT_CONNECTION_STRING'') \<and> \<not> falsy (env ''BING_RESOURCE_NAME'')"
  by (simp add: missing_vars_def)

lemma not_falsy: "\<not> falsy x \<longleftrightarrow> (\<exists>v. x = Some v \<and> v \<noteq> [])"
  by (cases x) auto

lemma find_agent_first:
  "agent_name a = n \<Longrightarrow> \<forall>x\<in>set pre. agent_name x \<noteq> n \<Longrightarrow>
     find_agent (pre @ a # post) n = Some a"
  by (induction pre) (auto simp: find_agent_def)

lemma find_agent_None: "find_agent agents n = None \<longleftrightarrow> (\<forall>a\<in>set agents. agent_name a \<noteq> n)"
  by (auto simp: find_agent_def find_None_iff)

lemma find_agent_Some: "find_agent agents n = Some a \<Longrightarrow> a \<in> set agents \<and> agent_name a = n"
  by (auto simp: find_agent_def find_Some_iff)

subsection \<open>Missing configuration\<close>

text \<open>
  C1 (as the code has it). When \<^verbatim>\<open>PROJECT_CONNECTION_STRING\<close> or \<^verbatim>\<open>BING_RESOURCE_NAME\<close> is
  unset or empty, the handler raises an \<^verbatim>\<open>EnvironmentError\<close> whose message lists exactly
  the missing ones of these two keys, in this order. The \<^verbatim>\<open>raise\<close> of line 49 stands before
  the \<^verbatim>\<open>try\<close> of line 54, so the exception leaves the handler: it is not turned into the
  payload with the single field \<^verbatim>\<open>error\<close>. Nothing was called before it: the state of the
  platform and the trace are as they were.
\<close>

theorem missing_configuration_raises:
  assumes "falsy (env ''PROJECT_CONNECTION_STRING'') \<or> falsy (env ''BING_RESOURCE_NAME'')"
  shows "search p env query (s, tr) =
           (Inl (EnvironmentError
                   (''Missing environment variable(s): '' @ join '', '' (missing_vars env))),
            (s, tr))
         \<and> missing_vars env =
             filter (\<lambda>k. falsy (env k)) [''PROJECT_CONNECTION_STRING'', ''BING_RESOURCE_NAME'']"
  using assms by (auto simp: search_def raise_def missing_vars_def Let_def)

theorem missing_configuration_raises_witness:
  "falsy ([''BING_RESOURCE_NAME'' \<mapsto> ''bing''] ''PROJECT_CONNECTION_STRING'')
   \<and> search (stub (stub_run ''completed'' None)
               (Inl (Exception ''down'')) (Inr []))
        [''BING_RESOURCE_NAME'' \<mapsto> ''bing''] ''q'' (stub_start [], [])
      = (Inl (EnvironmentError ''Missing environment variable(s): PROJECT_CONNECTION_STRING''),
         (stub_start [], []))"
  using missing_configuration_raises
    [of "[''BING_RESOURCE_NAME'' \<mapsto> ''bing'']"
        "stub (stub_run ''completed'' None)
           (Inl (Exception ''down'')) (Inr [])"
        "''q''" "stub_start []" "[]"]
  by (simp add: missing_vars_def)

text \<open>
  C1 as it is written fails: with neither variable set, the result of the handler is the
  exception itself, not a returned payload.
\<close>

theorem missing_configuration_is_not_a_payload:
  "fst (search (stub (stub_run ''completed'' None)
                 (Inl (Exception ''down'')) (Inr []))
          Map.empty ''q'' (stub_start [], []))
   = Inl (EnvironmentError
      ''Missing environment variable(s): PROJECT_CONNECTION_STRING, BING_RESOURCE_NAME'')"
  by (simp add: search_def raise_def missing_vars_def)

subsection \<open>The outer exception boundary\<close>

lemma search_boundary:
  assumes "missing_vars env = []"
  shows "wp (search p env query) (\<lambda>out (s', tr).
           (\<exists>payload. out = Inr payload)
           \<and> (List.map_filter escaping tr \<noteq> [] \<longrightarrow>
                out = Inr [(''error'', JStr (str (last (List.map_filter escaping tr))))])
           \<and> distinct (map call_name tr)) (s, [])"
  using assms
  by (simp add: search_defs wp_rules split: sum.split option.split)

text \<open>
  C2 (as the code has it). With both required variables set, every exception raised inside
  the \<^verbatim>\<open>try\<close> block (lines 54 to 186: the credential, the client, the \<^verbatim>\<open>with\<close> statement and
  every call of the platform in it, the refresh of line 124 apart, whose exception the
  inner \<^verbatim>\<open>except\<close> swallows) is caught at line 187: the handler returns, it never raises;
  when some call let an exception escape, what it returns is the payload with the single
  field \<^verbatim>\<open>error\<close> holding \<^verbatim>\<open>str\<close> of the last such exception; and no operation is called a
  second time. The configuration error of step 1 is not covered: it is raised before the
  \<^verbatim>\<open>try\<close>.
\<close>

theorem exceptions_inside_try_become_error_payload:
  assumes "search p env query (s, []) = (out, (s', tr))"
    and "\<not> falsy (env ''PROJECT_CONNECTION_STRING'')"
    and "\<not> falsy (env ''BING_RESOURCE_NAME'')"
  shows "(\<exists>payload. out = Inr payload)
         \<and> (List.map_filter escaping tr \<noteq> [] \<longrightarrow>
              out = Inr [(''error'', JStr (str (last (List.map_filter escaping tr))))])
         \<and> distinct (map call_name tr)"
  using wpD [OF search_boundary assms(1)] assms(2,3) by (simp add: missing_vars_Nil)

theorem exceptions_inside_try_become_error_payload_witness:
  "\<not> falsy (stub_env ''PROJECT_CONNECTION_STRING'')
   \<and> \<not> falsy (stub_env ''BING_RESOURCE_NAME'')
   \<and> List.map_filter escaping
        (snd (snd (search (stub (stub_run ''completed'' None)
                             (Inl (Exception ''refresh failed'')) (Inl (Exception ''service down'')))
                     stub_env ''q'' (stub_start [], []))))
        = [Exception ''service down'']
   \<and> fst (search (stub (stub_run ''completed'' None)
                    (Inl (Exception ''refresh failed'')) (Inl (Exception ''service down'')))
            stub_env ''q'' (stub_start [], []))
        = Inr [(''error'', JStr ''service down'')]"
  using exceptions_inside_try_become_error_payload
    [of "stub (stub_run ''completed'' None)
           (Inl (Exception ''refresh failed'')) (Inl (Exception ''service down''))"
        stub_env "''q''" "stub_start []"
        "fst (search (stub (stub_run ''completed'' None)
                    (Inl (Exception ''refresh failed'')) (Inl (Exception ''service down'')))
            stub_env ''q'' (stub_start [], []))"
        "fst (snd (search (stub (stub_run ''completed'' None)
                    (Inl (Exception ''refresh failed'')) (Inl (Exception ''service down'')))
            stub_env ''q'' (stub_start [], [])))"
        "snd (snd (search (stub (stub_run ''completed'' None)
                    (Inl (Exception ''refresh failed'')) (Inl (Exception ''service down'')))
            stub_env ''q'' (stub_start [], [])))"]
  by (simp add: run_defs stub_defs List.map_filter_simps)

text \<open>
  C2 as it is written fails at its step 1: with \<^verbatim>\<open>BING_RESOURCE_NAME\<close> unset the
  configuration error leaves the handler as an exception.
\<close>

theorem configuration_error_escapes_the_boundary:
  "fst (search (stub (stub_run ''completed'' None)
                 (Inl (Exception ''down'')) (Inr []))
          [''PROJECT_CONNECTION_STRING'' \<mapsto> ''https://project.example''] ''q''
          (stub_start [], []))
   = Inl (EnvironmentError ''Missing environment variable(s): BING_RESOURCE_NAME'')"
  by (simp add: search_def raise_def missing_vars_def)

subsection \<open>Runs of the in-memory platform\<close>

lemma request_rate_limited_eval:
  "request_rate_limited =
     (Inr [(''query'', JStr ''capital of France?''), (''status'', JStr ''failed''),
           (''error'', JStr ''rate_limited'')],
      \<lparr>stub_agents = [\<lparr>agent_id = ''agent-'', agent_name = Some ''searcher''\<rparr>],
        stub_threads = 1\<rparr>,
      [DefaultAzureCredential (Inr ()),
       AIProjectClient ''https://project.example'' (Inr ()),
       ClientEnter (Inr ()),
       ConnectionsGet ''bing'' (Inr \<lparr>connection_id = ''conn-bing''\<rparr>),
       ListAgents (Inr []),
       CreateAgent \<lparr>arg_model = ''gpt-4.1'', arg_name = Some ''searcher'',
                     arg_instructions = Some ''Answer from the web.'',
                     arg_tools = [BingGrounding ''conn-bing''],
                     arg_headers = [(''x-ms-enable-preview'', ''true'')],
                     arg_temperature = 0\<rparr>
         (Inr \<lparr>agent_id = ''agent-'', agent_name = Some ''searcher''\<rparr>),
       ThreadsCreate (Inr \<lparr>thread_id = ''thread-''\<rparr>),
       MessagesCreate ''thread-'' ''user'' ''capital of France?''
         (Inr (text_message ''user'' ''capital of France?'' 0)),
       RunsCreate ''thread-'' ''agent-'' (Inr (stub_run ''queued'' None)),
       Sleep 7,
       RunsGet ''thread-'' ''run'' (Inr (stub_run ''failed'' (Some ''rate_limited''))),
       ClientExit (Inr ())])"
  by (simp add: request_rate_limited_def run_defs stub_defs)

lemma request_existing_agent_eval:
  "request_existing_agent =
     (Inr [(''query'', JStr ''capital of France?''), (''agent_id'', JStr ''a1''),
           (''thread_id'', JStr ''thread-''), (''run_id'', JStr ''run''),
           (''run_status'', JStr ''completed''), (''assistant_response'', JStr ''Paris.'')],
      \<lparr>stub_agents = [\<lparr>agent_id = ''a0'', agent_name = Some ''other''\<rparr>,
                       \<lparr>agent_id = ''a1'', agent_name = Some ''searcher''\<rparr>,
                       \<lparr>agent_id = ''a2'', agent_name = Some ''searcher''\<rparr>],
        stub_threads = 1\<rparr>,
      [DefaultAzureCredential (Inr ()),
       AIProjectClient ''https://project.example'' (Inr ()),
       ClientEnter (Inr ()),
       ConnectionsGet ''bing'' (Inr \<lparr>connection_id = ''conn-bing''\<rparr>),
       ListAgents (Inr [\<lparr>agent_id = ''a0'', agent_name = Some ''other''\<rparr>,
                        \<lparr>agent_id = ''a1'', agent_name = Some ''searcher''\<rparr>,
                        \<lparr>agent_id = ''a2'', agent_name = Some ''searcher''\<rparr>]),
       ThreadsCreate (Inr \<lparr>thread_id = ''thread-''\<rparr>),
       MessagesCreate ''thread-'' ''user'' ''capital of France?''
         (Inr (text_message ''user'' ''capital of France?'' 0)),
       RunsCreate ''thread-'' ''a1'' (Inr (stub_run ''queued'' None)),
       Sleep 7,
       RunsGet ''thread-'' ''run'' (Inr (stub_run ''completed'' None)),
       MessagesList ''thread-''
         (Inr [text_message ''user'' ''capital of France?'' 1,
               text_message ''assistant'' ''Paris.'' 2]),
       ClientExit (Inr ())])"
  by (simp add: request_existing_agent_def run_defs stub_defs)

lemma request_paris_eval:
  "request_paris =
     (Inr [(''query'', JStr ''capital of France?''), (''agent_id'', JStr ''agent-''),
           (''thread_id'', JStr ''thread-''), (''run_id'', JStr ''run''),
           (''run_status'', JStr ''completed''),
           (''assistant_response'', JStr ''Paris is the capital of France.'')],
      \<lparr>stub_agents = [\<lparr>agent_id = ''agent-'', agent_name = Some ''searcher''\<rparr>],
        stub_threads = 1\<rparr>,
      [DefaultAzureCredential (Inr ()),
       AIProjectClient ''https://project.example'' (Inr ()),
       ClientEnter (Inr ()),
       ConnectionsGet ''bing'' (Inr \<lparr>connection_id = ''conn-bing''\<rparr>),
       ListAgents (Inr []),
       CreateAgent \<lparr>arg_model = ''gpt-4.1'', arg_name = Some ''searcher'',
                     arg_instructions = Some ''Answer from the web.'',
                     arg_tools = [BingGrounding ''conn-bing''],
                     arg_headers = [(''x-ms-enable-preview'', ''true'')],
                     arg_temperature = 0\<rparr>
         (Inr \<lparr>agent_id = ''agent-'', agent_name = Some ''searcher''\<rparr>),
       ThreadsCreate (Inr \<lparr>thread_id = ''thread-''\<rparr>),
       MessagesCreate ''thread-'' ''user'' ''capital of France?''
         (Inr (text_message ''user'' ''capital of France?'' 0)),
       RunsCreate ''thread-'' ''agent-'' (Inr (stub_run ''queued'' None)),
       Sleep 7,
       RunsGet ''thread-'' ''run'' (Inr (stub_run ''completed'' None)),
       MessagesList ''thread-''
         (Inr [text_message ''user'' ''capital of France?'' 1,
               text_message ''assistant'' ''  Paris is the capital of France.'' 2]),
       ClientExit (Inr ())])"
  by (simp add: request_paris_def run_defs stub_defs)

subsection \<open>A failed run\<close>

lemma failed_run_wp:
  "wp (search p env query) (\<lambda>out (s', tr).
     (RunsGet tid rid (Inr r) \<in> set tr
        \<or> (RunsGet tid rid (Inl e) \<in> set tr \<and> RunsCreate tid aid (Inr r) \<in> set tr)) \<longrightarrow>
     run_status r = ''failed'' \<longrightarrow>
       (\<forall>t ans. MessagesList t ans \<notin> set tr)
       \<and> (ClientExit (Inr ()) \<in> set tr \<longrightarrow>
            out = Inr [(''query'', JStr query), (''status'', JStr ''failed''),
                       (''error'', JStr (case last_error r of
                                           None \<Rightarrow> ''Unknown error'' | Some err \<Rightarrow> err))]))
     (s, [])"
  apply (simp add: search_defs wp_rules split: sum.split option.split)
  apply auto
  done

text \<open>
  C4. The status the handler checks at line 129 is the one of the run \<open>r\<close> that the refresh
  returned or, when the refresh raised, of the run that \<^verbatim>\<open>runs.create\<close> returned. When it
  is \<^verbatim>\<open>failed\<close>, and closing the client raises nothing, the handler returns exactly the
  three fields \<^verbatim>\<open>query\<close>, \<^verbatim>\<open>status\<close> and \<^verbatim>\<open>error\<close>, the last one being the run's last
  error as a string (\<^verbatim>\<open>Unknown error\<close> for a run object without the attribute); there is no
  field \<^verbatim>\<open>assistant_response\<close>, and \<^verbatim>\<open>messages.list\<close> is never called.
\<close>

theorem failed_run_returns_early:
  assumes "search p env query (s, []) = (out, (s', tr))"
    and "RunsGet tid rid (Inr r) \<in> set tr
         \<or> (RunsGet tid rid (Inl e) \<in> set tr \<and> RunsCreate tid aid (Inr r) \<in> set tr)"
    and "run_status r = ''failed''"
    and "ClientExit (Inr ()) \<in> set tr"
  shows "out = Inr [(''query'', JStr query), (''status'', JStr ''failed''),
                    (''error'', JStr (case last_error r of
                                        None \<Rightarrow> ''Unknown error'' | Some err \<Rightarrow> err))]
         \<and> (\<exists>payload. out = Inr payload \<and> map_of payload ''assistant_response'' = None)
         \<and> (\<forall>t ans. MessagesList t ans \<notin> set tr)"
  using wpD [OF failed_run_wp assms(1), of tid rid r e aid] assms(2-) by auto

theorem failed_run_returns_early_witness:
  "RunsGet ''thread-'' ''run'' (Inr (stub_run ''failed'' (Some ''rate_limited'')))
     \<in> set (snd (snd request_rate_limited))
   \<and> run_status (stub_run ''failed'' (Some ''rate_limited'')) = ''failed''
   \<and> ClientExit (Inr ()) \<in> set (snd (snd request_rate_limited))
   \<and> fst request_rate_limited =
       Inr [(''query'', JStr ''capital of France?''), (''status'', JStr ''failed''),
            (''error'', JStr ''rate_limited'')]"
proof -
  have run: "search (stub (stub_run ''queued'' None)
                       (Inr (stub_run ''failed'' (Some ''rate_limited''))) (Inr []))
               stub_env ''capital of France?'' (stub_start [], [])
             = (fst request_rate_limited, fst (snd request_rate_limited),
                snd (snd request_rate_limited))"
    by (simp add: request_rate_limited_def)
  show ?thesis
    using failed_run_returns_early
      [OF run, where tid = "''thread-''" and rid = "''run''"
         and r = "stub_run ''failed'' (Some ''rate_limited'')"]
    by (simp add: request_rate_limited_eval stub_run_def)
qed

subsection \<open>Reusing or creating the agent\<close>

lemma reuse_wp:
  "wp (search p env query) (\<lambda>out (s', tr).
     ListAgents (Inr (pre @ a # post)) \<in> set tr \<longrightarrow>
     agent_name a = env ''AGENT_NAME'' \<longrightarrow>
     (\<forall>x\<in>set pre. agent_name x \<noteq> env ''AGENT_NAME'') \<longrightarrow>
       (\<forall>args ans. CreateAgent args ans \<notin> set tr)
       \<and> (\<forall>payload. out = Inr payload \<longrightarrow> map fst payload = success_keys \<longrightarrow>
            map_of payload ''agent_id'' = Some (JStr (agent_id a))))
     (s, [])"
  by (simp add: search_defs wp_rules success_keys_def find_agent_None split: sum.split option.split)
    (auto simp: find_agent_first)

text \<open>
  C5. When \<^verbatim>\<open>list_agents\<close> answers a list in which \<open>a\<close> is the first agent whose name equals
  the configured \<^verbatim>\<open>AGENT_NAME\<close> (no agent before it has that name), \<^verbatim>\<open>create_agent\<close> is
  never called in this request, and a payload with the six fields of success carries the
  id of \<open>a\<close> as \<^verbatim>\<open>agent_id\<close>.
\<close>

theorem existing_agent_is_reused:
  assumes "search p env query (s, []) = (out, (s', tr))"
    and "ListAgents (Inr (pre @ a # post)) \<in> set tr"
    and "agent_name a = env ''AGENT_NAME''"
    and "\<forall>x\<in>set pre. agent_name x \<noteq> env ''AGENT_NAME''"
  shows "(\<forall>args ans. CreateAgent args ans \<notin> set tr)
         \<and> (\<forall>payload. out = Inr payload \<longrightarrow> map fst payload = success_keys \<longrightarrow>
              map_of payload ''agent_id'' = Some (JStr (agent_id a)))"
  using wpD [OF reuse_wp assms(1), of pre a post] assms(2-) by simp

theorem existing_agent_is_reused_witness:
  "ListAgents (Inr ([\<lparr>agent_id = ''a0'', agent_name = Some ''other''\<rparr>]
                    @ \<lparr>agent_id = ''a1'', agent_name = Some ''searcher''\<rparr>
                    # [\<lparr>agent_id = ''a2'', agent_name = Some ''searcher''\<rparr>]))
     \<in> set (snd (snd request_existing_agent))
   \<and> agent_name \<lparr>agent_id = ''a1'', agent_name = Some ''searcher''\<rparr> = stub_env ''AGENT_NAME''
   \<and> agent_name \<lparr>agent_id = ''a0'', agent_name = Some ''other''\<rparr> \<noteq> stub_env ''AGENT_NAME''
   \<and> map fst (projr (fst request_existing_agent)) = success_keys
   \<and> map_of (projr (fst request_existing_agent)) ''agent_id'' = Some (JStr ''a1'')
   \<and> CreateAgent
        \<lparr>arg_model = ''gpt-4.1'', arg_name = Some ''searcher'',
         arg_instructions = Some ''Answer from the web.'',
         arg_tools = [BingGrounding ''conn-bing''],
         arg_headers = [(''x-ms-enable-preview'', ''true'')], arg_temperature = 0\<rparr>
        (Inr \<lparr>agent_id = ''agent-'', agent_name = Some ''searcher''\<rparr>)
       \<notin> set (snd (snd request_existing_agent))"
proof -
  have run: "search (stub (stub_run ''queued'' None) (Inr (stub_run ''completed'' None))
                       (Inr [text_message ''user'' ''capital of France?'' 1,
                             text_message ''assistant'' ''Paris.'' 2]))
               stub_env ''capital of France?''
               (stub_start [\<lparr>agent_id = ''a0'', agent_name = Some ''other''\<rparr>,
                            \<lparr>agent_id = ''a1'', agent_name = Some ''searcher''\<rparr>,
                            \<lparr>agent_id = ''a2'', agent_name = Some ''searcher''\<rparr>], [])
             = (fst request_existing_agent, fst (snd request_existing_agent),
                snd (snd request_existing_agent))"
    by (simp add: request_existing_agent_def)
  show ?thesis
    using existing_agent_is_reused
      [OF run, where pre = "[\<lparr>agent_id = ''a0'', agent_name = Some ''other''\<rparr>]"
         and a = "\<lparr>agent_id = ''a1'', agent_name = Some ''searcher''\<rparr>"
         and post = "[\<lparr>agent_id = ''a2'', agent_name = Some ''searcher''\<rparr>]"]
    by (simp add: request_existing_agent_eval stub_env_def success_keys_def)
qed

lemma create_wp:
  "wp (search p env query) (\<lambda>out (s', tr).
     ListAgents (Inr agents) \<in> set tr \<longrightarrow>
     (\<forall>a\<in>set agents. agent_name a \<noteq> env ''AGENT_NAME'') \<longrightarrow>
       (\<exists>cname conn ans. env ''BING_RESOURCE_NAME'' = Some cname
          \<and> ConnectionsGet cname (Inr conn) \<in> set tr
          \<and> CreateAgent
               \<lparr>arg_model = (case env ''MODEL_DEPLOYMENT_NAME'' of
                               None \<Rightarrow> ''gpt-4.1'' | Some m \<Rightarrow> m),
                arg_name = env ''AGENT_NAME'',
                arg_instructions = env ''AGENT_INSTRUCTIONS'',
                arg_tools = [BingGrounding (connection_id conn)],
                arg_headers = [(''x-ms-enable-preview'', ''true'')],
                arg_temperature = 0\<rparr> ans \<in> set tr
          \<and> length (filter (\<lambda>ev. call_name ev = ''agents.create_agent'') tr) = 1))
     (s, [])"
  apply (simp add: search_defs wp_rules missing_vars_Nil not_falsy find_agent_None
      split: sum.split option.split)
  apply (auto dest: find_agent_Some)
  done

text \<open>
  C6. When \<^verbatim>\<open>list_agents\<close> answers a list in which no agent has the configured name, the
  handler calls \<^verbatim>\<open>create_agent\<close>, once, with: the model of \<^verbatim>\<open>MODEL_DEPLOYMENT_NAME\<close>, or
  \<^verbatim>\<open>gpt-4.1\<close> when that is unset; the configured name and instructions; the Bing grounding
  tool bound to the id of the connection that \<^verbatim>\<open>connections.get\<close> returned for
  \<^verbatim>\<open>BING_RESOURCE_NAME\<close>; the header \<^verbatim>\<open>x-ms-enable-preview: true\<close>; and temperature 0.
\<close>

theorem missing_agent_is_created:
  assumes "search p env query (s, []) = (out, (s', tr))"
    and "ListAgents (Inr agents) \<in> set tr"
    and "\<forall>a\<in>set agents. agent_name a \<noteq> env ''AGENT_NAME''"
  shows "\<exists>cname conn ans. env ''BING_RESOURCE_NAME'' = Some cname
          \<and> ConnectionsGet cname (Inr conn) \<in> set tr
          \<and> CreateAgent
               \<lparr>arg_model = (case env ''MODEL_DEPLOYMENT_NAME'' of
                               None \<Rightarrow> ''gpt-4.1'' | Some m \<Rightarrow> m),
                arg_name = env ''AGENT_NAME'',
                arg_instructions = env ''AGENT_INSTRUCTIONS'',
                arg_tools = [BingGrounding (connection_id conn)],
                arg_headers = [(''x-ms-enable-preview'', ''true'')],
                arg_temperature = 0\<rparr> ans \<in> set tr
          \<and> length (filter (\<lambda>ev. call_name ev = ''agents.create_agent'') tr) = 1"
  using wpD [OF create_wp assms(1), of agents] assms(2-) by simp

theorem missing_agent_is_created_witness:
  "ListAgents (Inr []) \<in> set (snd (snd request_paris))
   \<and> stub_env ''MODEL_DEPLOYMENT_NAME'' = None
   \<and> CreateAgent
        \<lparr>arg_model = ''gpt-4.1'', arg_name = Some ''searcher'',
         arg_instructions = Some ''Answer from the web.'',
         arg_tools = [BingGrounding ''conn-bing''],
         arg_headers = [(''x-ms-enable-preview'', ''true'')], arg_temperature = 0\<rparr>
        (Inr \<lparr>agent_id = ''agent-'', agent_name = Some ''searcher''\<rparr>)
       \<in> set (snd (snd request_paris))
   \<and> length (filter (\<lambda>ev. call_name ev = ''agents.create_agent'') (snd (snd request_paris))) = 1"
proof -
  have run: "search (stub (stub_run ''queued'' None) (Inr (stub_run ''completed'' None))
                       (Inr [text_message ''user'' ''capital of France?'' 1,
                             text_message ''assistant'' ''  Paris is the capital of France.'' 2]))
               stub_env ''capital of France?'' (stub_start [], [])
             = (fst request_paris, fst (snd request_paris), snd (snd request_paris))"
    by (simp add: request_paris_def)
  show ?thesis
    using missing_agent_is_created [OF run, where agents = "[]"]
    by (simp add: request_paris_eval stub_env_def)
qed

subsection \<open>Selecting and reading the assistant's message\<close>

lemma last_assistant_snoc:
  "last_assistant (msgs @ [x]) =
     (if role x = ''assistant'' then Some x else last_assistant msgs)"
  by (simp add: last_assistant_def)

lemma last_assistant_None:
  "last_assistant msgs = None \<longleftrightarrow> (\<forall>x\<in>set msgs. role x \<noteq> ''assistant'')"
  by (auto simp: last_assistant_def find_None_iff)

lemma last_assistant_Some:
  "last_assistant msgs = Some m \<Longrightarrow>
     role m = ''assistant'' \<and>
     (\<exists>pre post. msgs = pre @ m # post \<and> (\<forall>x\<in>set post. role x \<noteq> ''assistant''))"
proof (induction msgs rule: rev_induct)
  case Nil
  then show ?case by (simp add: last_assistant_def)
next
  case (snoc x xs)
  show ?case
  proof (cases "role x = ''assistant''")
    case True
    with snoc.prems have "m = x" by (simp add: last_assistant_snoc)
    with True have "xs @ [x] = xs @ m # [] \<and> (\<forall>y\<in>set []. role y \<noteq> ''assistant'')"
      by simp
    with True \<open>m = x\<close> show ?thesis by blast
  next
    case False
    with snoc.prems have "last_assistant xs = Some m" by (simp add: last_assistant_snoc)
    from snoc.IH [OF this] obtain pre post where
      m: "role m = ''assistant''" and xs: "xs = pre @ m # post"
      and post: "\<forall>y\<in>set post. role y \<noteq> ''assistant''"
      by blast
    from xs post False
    have "xs @ [x] = pre @ m # (post @ [x]) \<and> (\<forall>y\<in>set (post @ [x]). role y \<noteq> ''assistant'')"
      by simp
    with m show ?thesis by blast
  qed
qed

lemma last_assistant_latest:
  assumes "sorted_wrt (\<lambda>a b. created_at a \<le> created_at b) msgs"
    and "last_assistant msgs = Some m"
    and "x \<in> set msgs" and "role x = ''assistant''"
  shows "created_at x \<le> created_at m"
proof -
  from last_assistant_Some [OF assms(2)] obtain pre post where
    msgs: "msgs = pre @ m # post" and post: "\<forall>y\<in>set post. role y \<noteq> ''assistant''"
    by blast
  from assms(3,4) msgs post have "x \<in> set pre \<or> x = m" by auto
  moreover from assms(1) msgs have "\<forall>y\<in>set pre. created_at y \<le> created_at m"
    by (simp add: sorted_wrt_append)
  ultimately show ?thesis by auto
qed

lemma collect_foldl:
  "foldl (\<lambda>acc item. case item_value item of None \<Rightarrow> acc | Some v \<Rightarrow> acc @ v @ [c]) acc items
     = acc @ concat (map (\<lambda>v. v @ [c]) (List.map_filter item_value items))"
  by (induction items arbitrary: acc) (simp_all add: List.map_filter_simps split: option.split)

lemma concat_join:
  "vs \<noteq> [] \<Longrightarrow> concat (map (\<lambda>v. v @ [c]) vs) = join [c] vs @ [c]"
  by (induction "[c]" vs rule: join.induct) simp_all

lemma strip_snoc_space:
  assumes "isspace c"
  shows "strip (s @ [c]) = strip s"
proof (cases "\<forall>x\<in>set s. isspace x")
  case True
  with assms have a: "dropWhile isspace s = []" and b: "dropWhile isspace (s @ [c]) = []"
    unfolding dropWhile_eq_Nil_conv by simp_all
  show ?thesis unfolding strip_def a b by (rule refl)
next
  case False
  then have "dropWhile isspace (s @ [c]) = dropWhile isspace s @ [c]"
    by (auto simp: dropWhile_append)
  with assms show ?thesis by (simp add: strip_def)
qed

lemma isspace_newline: "isspace (CHR 0x0A)"
  by (simp add: isspace_def)

lemma assistant_text_join:
  "strip (assistant_text (Some m)) =
     strip (join [CHR 0x0A] (List.map_filter item_value (content m)))"
proof (cases "List.map_filter item_value (content m) = []")
  case True
  then show ?thesis by (simp add: assistant_text_def collect_foldl)
next
  case False
  then show ?thesis
    by (simp add: assistant_text_def collect_foldl concat_join strip_snoc_space isspace_newline)
qed

lemma assistant_text_no_value:
  "\<forall>i\<in>set (content m). item_value i = None \<Longrightarrow> assistant_text (Some m) = []"
proof -
  assume "\<forall>i\<in>set (content m). item_value i = None"
  then have "List.map_filter item_value (content m) = []"
    by (induction "content m" arbitrary: m) (auto simp: List.map_filter_def filter_empty_conv)
  then show ?thesis by (simp add: assistant_text_def collect_foldl)
qed

lemma strip_Nil: "strip [] = []"
  by (simp add: strip_def)

lemma success_wp:
  "wp (search p env query) (\<lambda>out (s', tr).
     MessagesList tid (Inr msgs) \<in> set tr \<longrightarrow> ClientExit (Inr ()) \<in> set tr \<longrightarrow>
       (\<exists>payload. out = Inr payload \<and> map fst payload = success_keys
          \<and> map_of payload ''query'' = Some (JStr query)
          \<and> map_of payload ''assistant_response''
              = Some (or_none (strip (assistant_text (last_assistant msgs))))))
     (s, [])"
  apply (simp add: search_defs wp_rules success_keys_def split: sum.split option.split)
  apply auto
  done


text \<open>
  C3 (as the code has it). When \<^verbatim>\<open>messages.list\<close> was called and answered \<open>msgs\<close> (which
  happens only when the status read was not \<^verbatim>\<open>failed\<close>), closing the client raised
  nothing, and the scan of line 153 found the message \<open>m\<close>, then: \<open>m\<close> is the assistant
  message that stands last in the listing as it was returned; the handler returns the
  six fields of success, and \<^verbatim>\<open>assistant_response\<close> is the values of the text-bearing
  blocks of \<open>m\<close> joined by newlines and stripped, or \<^verbatim>\<open>None\<close> when that is empty. \<open>m\<close> is
  the most recent assistant message when the listing is in ascending order of creation;
  the handler compares no creation times.
\<close>

theorem assistant_response_of_last_listed:
  assumes "search p env query (s, []) = (out, (s', tr))"
    and "MessagesList tid (Inr msgs) \<in> set tr"
    and "ClientExit (Inr ()) \<in> set tr"
    and "last_assistant msgs = Some m"
  shows "role m = ''assistant''
         \<and> (\<exists>pre post. msgs = pre @ m # post \<and> (\<forall>x\<in>set post. role x \<noteq> ''assistant''))
         \<and> (\<exists>payload. out = Inr payload \<and> map fst payload = success_keys
               \<and> map_of payload ''assistant_response''
                   = Some (or_none (strip (join [CHR 0x0A]
                                             (List.map_filter item_value (content m))))))
         \<and> (sorted_wrt (\<lambda>a b. created_at a \<le> created_at b) msgs \<longrightarrow>
               (\<forall>x\<in>set msgs. role x = ''assistant'' \<longrightarrow> created_at x \<le> created_at m))"
proof -
  from wpD [OF success_wp assms(1), of tid msgs] assms(2,3,4)
  have "\<exists>payload. out = Inr payload \<and> map fst payload = success_keys
          \<and> map_of payload ''assistant_response''
              = Some (or_none (strip (join [CHR 0x0A]
                                        (List.map_filter item_value (content m)))))"
    by (auto simp: assistant_text_join)
  with last_assistant_Some [OF assms(4)] last_assistant_latest [OF _ assms(4)]
  show ?thesis by blast
qed

lemma request_paris_run:
  "search (stub (stub_run ''queued'' None) (Inr (stub_run ''completed'' None))
             (Inr [text_message ''user'' ''capital of France?'' 1,
                   text_message ''assistant'' ''  Paris is the capital of France.'' 2]))
     stub_env ''capital of France?'' (stub_start [], [])
   = (fst request_paris, fst (snd request_paris), snd (snd request_paris))"
  by (simp add: request_paris_def)

theorem assistant_response_of_last_listed_witness:
  "MessagesList ''thread-''
      (Inr [text_message ''user'' ''capital of France?'' 1,
            text_message ''assistant'' ''  Paris is the capital of France.'' 2])
     \<in> set (snd (snd request_paris))
   \<and> ClientExit (Inr ()) \<in> set (snd (snd request_paris))
   \<and> last_assistant [text_message ''user'' ''capital of France?'' 1,
                      text_message ''assistant'' ''  Paris is the capital of France.'' 2]
       = Some (text_message ''assistant'' ''  Paris is the capital of France.'' 2)
   \<and> sorted_wrt (\<lambda>a b. created_at a \<le> created_at b)
        [text_message ''user'' ''capital of France?'' 1,
         text_message ''assistant'' ''  Paris is the capital of France.'' 2]
   \<and> map_of (projr (fst request_paris)) ''assistant_response''
       = Some (JStr ''Paris is the capital of France.'')
   \<and> map_of (projr (fst request_paris)) ''run_status'' = Some (JStr ''completed'')"
  using assistant_response_of_last_listed
    [OF request_paris_run, where tid = "''thread-''"
       and msgs = "[text_message ''user'' ''capital of France?'' 1,
                    text_message ''assistant'' ''  Paris is the capital of France.'' 2]"
       and m = "text_message ''assistant'' ''  Paris is the capital of France.'' 2"]
  by (simp add: request_paris_eval last_assistant_def text_message_def)

lemma request_newest_first_eval:
  "fst request_newest_first =
     Inr [(''query'', JStr ''capital of France?''), (''agent_id'', JStr ''agent-''),
          (''thread_id'', JStr ''thread-''), (''run_id'', JStr ''run''),
          (''run_status'', JStr ''completed''), (''assistant_response'', JStr ''old answer'')]"
  by (simp add: request_newest_first_def run_defs stub_defs)

text \<open>
  C3 as it is written fails: the selection does depend on the order of the listing. With
  the listing newest first, the handler answers with the older of two assistant messages.
\<close>

theorem newest_first_listing_selects_older_message:
  "map_of (projr (fst request_newest_first)) ''assistant_response'' = Some (JStr ''old answer'')
   \<and> last_assistant [text_message ''assistant'' ''new answer'' 3,
                      text_message ''assistant'' ''old answer'' 2,
                      text_message ''user'' ''capital of France?'' 1]
       = Some (text_message ''assistant'' ''old answer'' 2)
   \<and> role (text_message ''assistant'' ''new answer'' 3) = ''assistant''
   \<and> created_at (text_message ''assistant'' ''old answer'' 2)
       < created_at (text_message ''assistant'' ''new answer'' 3)"
  by (simp add: request_newest_first_eval last_assistant_def text_message_def)

subsection \<open>No answer\<close>

text \<open>
  C7 (as the code has it). When \<^verbatim>\<open>messages.list\<close> answered \<open>msgs\<close>, closing the client
  raised nothing, and either no message of \<open>msgs\<close> has the role \<^verbatim>\<open>assistant\<close> or the
  assistant message that stands last in \<open>msgs\<close> has no block with a non-empty text value,
  the handler returns the six fields of success with \<^verbatim>\<open>assistant_response\<close> being \<^verbatim>\<open>None\<close>:
  it returns, so nothing was raised.
\<close>

theorem no_text_gives_null_response:
  assumes "search p env query (s, []) = (out, (s', tr))"
    and "MessagesList tid (Inr msgs) \<in> set tr"
    and "ClientExit (Inr ()) \<in> set tr"
    and "(\<forall>x\<in>set msgs. role x \<noteq> ''assistant'')
         \<or> (\<exists>m. last_assistant msgs = Some m \<and> (\<forall>i\<in>set (content m). item_value i = None))"
  shows "\<exists>payload. out = Inr payload \<and> map fst payload = success_keys
           \<and> map_of payload ''assistant_response'' = Some JNone"
proof -
  from assms(4) have "strip (assistant_text (last_assistant msgs)) = []"
  proof
    assume "\<forall>x\<in>set msgs. role x \<noteq> ''assistant''"
    then have "last_assistant msgs = None" by (simp add: last_assistant_None)
    then show ?thesis by (simp add: assistant_text_def strip_Nil)
  next
    assume "\<exists>m. last_assistant msgs = Some m \<and> (\<forall>i\<in>set (content m). item_value i = None)"
    then show ?thesis by (auto simp: assistant_text_no_value strip_Nil)
  qed
  with wpD [OF success_wp assms(1), of tid msgs] assms(2,3)
  show ?thesis by (auto simp: or_none_def)
qed

lemma request_no_assistant_eval:
  "fst request_no_assistant =
     Inr [(''query'', JStr ''capital of France?''), (''agent_id'', JStr ''agent-''),
          (''thread_id'', JStr ''thread-''), (''run_id'', JStr ''run''),
          (''run_status'', JStr ''completed''), (''assistant_response'', JNone)]
   \<and> MessagesList ''thread-'' (Inr [text_message ''user'' ''capital of France?'' 1])
        \<in> set (snd (snd request_no_assistant))
   \<and> ClientExit (Inr ()) \<in> set (snd (snd request_no_assistant))"
  by (simp add: request_no_assistant_def run_defs stub_defs)

lemma request_image_only_eval:
  "fst request_image_only =
     Inr [(''query'', JStr ''capital of France?''), (''agent_id'', JStr ''agent-''),
          (''thread_id'', JStr ''thread-''), (''run_id'', JStr ''run''),
          (''run_status'', JStr ''completed''), (''assistant_response'', JNone)]
   \<and> MessagesList ''thread-''
        (Inr [text_message ''user'' ''capital of France?'' 1,
              \<lparr>message_id = ''msg'', role = ''assistant'',
                content = [ContentItem None, ContentItem (Some (TextDetails (Some '''')))],
                created_at = 2\<rparr>])
        \<in> set (snd (snd request_image_only))
   \<and> ClientExit (Inr ()) \<in> set (snd (snd request_image_only))"
  by (simp add: request_image_only_def run_defs stub_defs)

theorem no_text_gives_null_response_witness:
  "role (text_message ''user'' ''capital of France?'' 1) \<noteq> ''assistant''
   \<and> map_of (projr (fst request_no_assistant)) ''assistant_response'' = Some JNone
   \<and> last_assistant
        [text_message ''user'' ''capital of France?'' 1,
         \<lparr>message_id = ''msg'', role = ''assistant'',
           content = [ContentItem None, ContentItem (Some (TextDetails (Some '''')))],
           created_at = 2\<rparr>]
       = Some \<lparr>message_id = ''msg'', role = ''assistant'',
                content = [ContentItem None, ContentItem (Some (TextDetails (Some '''')))],
                created_at = 2\<rparr>
   \<and> item_value (ContentItem None) = None
   \<and> item_value (ContentItem (Some (TextDetails (Some '''')))) = None
   \<and> map_of (projr (fst request_image_only)) ''assistant_response'' = Some JNone"
proof -
  have run1: "search (stub (stub_run ''queued'' None) (Inr (stub_run ''completed'' None))
                        (Inr [text_message ''user'' ''capital of France?'' 1]))
                stub_env ''capital of France?'' (stub_start [], [])
              = (fst request_no_assistant, fst (snd request_no_assistant),
                 snd (snd request_no_assistant))"
    by (simp add: request_no_assistant_def)
  have run2: "search (stub (stub_run ''queued'' None) (Inr (stub_run ''completed'' None))
                        (Inr [text_message ''user'' ''capital of France?'' 1,
                              \<lparr>message_id = ''msg'', role = ''assistant'',
                                content = [ContentItem None,
                                           ContentItem (Some (TextDetails (Some '''')))],
                                created_at = 2\<rparr>]))
                stub_env ''capital of France?'' (stub_start [], [])
              = (fst request_image_only, fst (snd request_image_only),
                 snd (snd request_image_only))"
    by (simp add: request_image_only_def)
  show ?thesis
    using no_text_gives_null_response
        [OF run1, where tid = "''thread-''"
           and msgs = "[text_message ''user'' ''capital of France?'' 1]"]
      no_text_gives_null_response
        [OF run2, where tid = "''thread-''"
           and msgs = "[text_message ''user'' ''capital of France?'' 1,
                        \<lparr>message_id = ''msg'', role = ''assistant'',
                          content = [ContentItem None,
                                     ContentItem (Some (TextDetails (Some '''')))],
                          created_at = 2\<rparr>]"]
    by (simp add: request_no_assistant_eval request_image_only_eval last_assistant_def
          text_message_def)
qed

lemma request_newest_image_eval:
  "fst request_newest_image =
     Inr [(''query'', JStr ''capital of France?''), (''agent_id'', JStr ''agent-''),
          (''thread_id'', JStr ''thread-''), (''run_id'', JStr ''run''),
          (''run_status'', JStr ''completed''), (''assistant_response'', JStr ''old answer'')]"
  by (simp add: request_newest_image_def run_defs stub_defs)

text \<open>
  C7 as it is written fails for the same reason as C3: with the listing newest first, the
  most recent assistant message holds no text, and yet the response is not \<^verbatim>\<open>None\<close>: it is
  the text of the older assistant message.
\<close>

theorem newest_first_listing_answers_from_older_message:
  "map_of (projr (fst request_newest_image)) ''assistant_response'' = Some (JStr ''old answer'')
   \<and> role \<lparr>message_id = ''msg'', role = ''assistant'',
             content = [ContentItem None], created_at = 3\<rparr> = ''assistant''
   \<and> List.map_filter item_value
        (content \<lparr>message_id = ''msg'', role = ''assistant'',
                   content = [ContentItem None], created_at = 3\<rparr>) = []
   \<and> created_at (text_message ''assistant'' ''old answer'' 2)
       < created_at \<lparr>message_id = ''msg'', role = ''assistant'',
                      content = [ContentItem None], created_at = 3\<rparr>
   \<and> created_at (text_message ''user'' ''capital of France?'' 1)
       < created_at \<lparr>message_id = ''msg'', role = ''assistant'',
                      content = [ContentItem None], created_at = 3\<rparr>"
  by (simp add: request_newest_image_eval text_message_def List.map_filter_simps)

subsection \<open>A refresh that raises\<close>

lemma stale_wp:
  "wp (search p env query) (\<lambda>out (s', tr).
     RunsCreate tid aid (Inr run0) \<in> set tr \<longrightarrow> RunsGet tid' rid (Inl e) \<in> set tr \<longrightarrow>
       (run_status run0 = ''failed'' \<longrightarrow>
          (\<forall>t ans. MessagesList t ans \<notin> set tr)
          \<and> (ClientExit (Inr ()) \<in> set tr \<longrightarrow>
               out = Inr [(''query'', JStr query), (''status'', JStr (run_status run0)),
                          (''error'', JStr (case last_error run0 of
                                              None \<Rightarrow> ''Unknown error'' | Some err \<Rightarrow> err))]))
       \<and> (run_status run0 \<noteq> ''failed'' \<longrightarrow>
            (\<exists>ans. MessagesList tid ans \<in> set tr)
            \<and> (\<forall>msgs. MessagesList tid (Inr msgs) \<in> set tr \<longrightarrow> ClientExit (Inr ()) \<in> set tr \<longrightarrow>
                 (\<exists>payload. out = Inr payload \<and> map fst payload = success_keys
                    \<and> map_of payload ''run_id'' = Some (JStr (run_id run0))
                    \<and> map_of payload ''run_status'' = Some (JStr (run_status run0))))))
     (s, [])"
  apply (simp add: search_defs wp_rules success_keys_def split: sum.split option.split)
  apply auto
  done

text \<open>
  C8. When the refresh of line 124 raised, the handler goes on with the run \<open>run0\<close> that
  \<^verbatim>\<open>runs.create\<close> had returned. If the status of \<open>run0\<close> is \<^verbatim>\<open>failed\<close>, the early return of
  line 130 reports that status and the last error of \<open>run0\<close>, and no listing is asked for.
  Otherwise \<^verbatim>\<open>messages.list\<close> is called, and when it answers, the payload of success
  carries the id and the status of \<open>run0\<close>. (Both under the proviso that closing the client
  raises nothing.)
\<close>

theorem refresh_failure_keeps_first_run:
  assumes "search p env query (s, []) = (out, (s', tr))"
    and "RunsCreate tid aid (Inr run0) \<in> set tr"
    and "RunsGet tid' rid (Inl e) \<in> set tr"
  shows "(run_status run0 = ''failed'' \<longrightarrow>
            (\<forall>t ans. MessagesList t ans \<notin> set tr)
            \<and> (ClientExit (Inr ()) \<in> set tr \<longrightarrow>
                 out = Inr [(''query'', JStr query), (''status'', JStr (run_status run0)),
                            (''error'', JStr (case last_error run0 of
                                                None \<Rightarrow> ''Unknown error''
                                              | Some err \<Rightarrow> err))]))
         \<and> (run_status run0 \<noteq> ''failed'' \<longrightarrow>
              (\<exists>ans. MessagesList tid ans \<in> set tr)
              \<and> (\<forall>msgs. MessagesList tid (Inr msgs) \<in> set tr \<longrightarrow>
                         ClientExit (Inr ()) \<in> set tr \<longrightarrow>
                   (\<exists>payload. out = Inr payload \<and> map fst payload = success_keys
                      \<and> map_of payload ''run_id'' = Some (JStr (run_id run0))
                      \<and> map_of payload ''run_status'' = Some (JStr (run_status run0)))))"
  using wpD [OF stale_wp assms(1), of tid aid run0 tid' rid e] assms(2-) by simp

lemma request_stale_failed_eval:
  "fst request_stale_failed =
     Inr [(''query'', JStr ''capital of France?''), (''status'', JStr ''failed''),
          (''error'', JStr ''rate_limited'')]
   \<and> snd (snd request_stale_failed) =
      [DefaultAzureCredential (Inr ()),
       AIProjectClient ''https://project.example'' (Inr ()),
       ClientEnter (Inr ()),
       ConnectionsGet ''bing'' (Inr \<lparr>connection_id = ''conn-bing''\<rparr>),
       ListAgents (Inr []),
       CreateAgent \<lparr>arg_model = ''gpt-4.1'', arg_name = Some ''searcher'',
                     arg_instructions = Some ''Answer from the web.'',
                     arg_tools = [BingGrounding ''conn-bing''],
                     arg_headers = [(''x-ms-enable-preview'', ''true'')],
                     arg_temperature = 0\<rparr>
         (Inr \<lparr>agent_id = ''agent-'', agent_name = Some ''searcher''\<rparr>),
       ThreadsCreate (Inr \<lparr>thread_id = ''thread-''\<rparr>),
       MessagesCreate ''thread-'' ''user'' ''capital of France?''
         (Inr (text_message ''user'' ''capital of France?'' 0)),
       RunsCreate ''thread-'' ''agent-'' (Inr (stub_run ''failed'' (Some ''rate_limited''))),
       Sleep 7,
       RunsGet ''thread-'' ''run'' (Inl (Exception ''refresh failed'')),
       ClientExit (Inr ())]"
  by (simp add: request_stale_failed_def run_defs stub_defs)

lemma request_stale_queued_eval:
  "fst request_stale_queued =
     Inr [(''query'', JStr ''capital of France?''), (''agent_id'', JStr ''agent-''),
          (''thread_id'', JStr ''thread-''), (''run_id'', JStr ''run''),
          (''run_status'', JStr ''queued''), (''assistant_response'', JStr ''Paris.'')]
   \<and> snd (snd request_stale_queued) =
      [DefaultAzureCredential (Inr ()),
       AIProjectClient ''https://project.example'' (Inr ()),
       ClientEnter (Inr ()),
       ConnectionsGet ''bing'' (Inr \<lparr>connection_id = ''conn-bing''\<rparr>),
       ListAgents (Inr []),
       CreateAgent \<lparr>arg_model = ''gpt-4.1'', arg_name = Some ''searcher'',
                     arg_instructions = Some ''Answer from the web.'',
                     arg_tools = [BingGrounding ''conn-bing''],
                     arg_headers = [(''x-ms-enable-preview'', ''true'')],
                     arg_temperature = 0\<rparr>
         (Inr \<lparr>agent_id = ''agent-'', agent_name = Some ''searcher''\<rparr>),
       ThreadsCreate (Inr \<lparr>thread_id = ''thread-''\<rparr>),
       MessagesCreate ''thread-'' ''user'' ''capital of France?''
         (Inr (text_message ''user'' ''capital of France?'' 0)),
       RunsCreate ''thread-'' ''agent-'' (Inr (stub_run ''queued'' None)),
       Sleep 7,
       RunsGet ''thread-'' ''run'' (Inl (Exception ''refresh failed'')),
       MessagesList ''thread-''
         (Inr [text_message ''user'' ''capital of France?'' 1,
               text_message ''assistant'' ''Paris.'' 2]),
       ClientExit (Inr ())]"
  by (simp add: request_stale_queued_def run_defs stub_defs)

theorem refresh_failure_keeps_first_run_witness:
  "RunsCreate ''thread-'' ''agent-'' (Inr (stub_run ''failed'' (Some ''rate_limited'')))
     \<in> set (snd (snd request_stale_failed))
   \<and> RunsGet ''thread-'' ''run'' (Inl (Exception ''refresh failed''))
       \<in> set (snd (snd request_stale_failed))
   \<and> run_status (stub_run ''failed'' (Some ''rate_limited'')) = ''failed''
   \<and> ClientExit (Inr ()) \<in> set (snd (snd request_stale_failed))
   \<and> fst request_stale_failed =
       Inr [(''query'', JStr ''capital of France?''), (''status'', JStr ''failed''),
            (''error'', JStr ''rate_limited'')]
   \<and> RunsCreate ''thread-'' ''agent-'' (Inr (stub_run ''queued'' None))
       \<in> set (snd (snd request_stale_queued))
   \<and> RunsGet ''thread-'' ''run'' (Inl (Exception ''refresh failed''))
       \<in> set (snd (snd request_stale_queued))
   \<and> run_status (stub_run ''queued'' None) \<noteq> ''failed''
   \<and> MessagesList ''thread-''
        (Inr [text_message ''user'' ''capital of France?'' 1,
              text_message ''assistant'' ''Paris.'' 2])
       \<in> set (snd (snd request_stale_queued))
   \<and> ClientExit (Inr ()) \<in> set (snd (snd request_stale_queued))
   \<and> map_of (projr (fst request_stale_queued)) ''run_status'' = Some (JStr ''queued'')
   \<and> map_of (projr (fst request_stale_queued)) ''run_id'' = Some (JStr ''run'')"
proof -
  have run1: "search (stub (stub_run ''failed'' (Some ''rate_limited''))
                        (Inl (Exception ''refresh failed'')) (Inr []))
                stub_env ''capital of France?'' (stub_start [], [])
              = (fst request_stale_failed, fst (snd request_stale_failed),
                 snd (snd request_stale_failed))"
    by (simp add: request_stale_failed_def)
  have run2: "search (stub (stub_run ''queued'' None) (Inl (Exception ''refresh failed''))
                        (Inr [text_message ''user'' ''capital of France?'' 1,
                              text_message ''assistant'' ''Paris.'' 2]))
                stub_env ''capital of France?'' (stub_start [], [])
              = (fst request_stale_queued, fst (snd request_stale_queued),
                 snd (snd request_stale_queued))"
    by (simp add: request_stale_queued_def)
  show ?thesis
    using refresh_failure_keeps_first_run
        [OF run1, where tid = "''thread-''" and aid = "''agent-''"
           and ?run0.0 = "stub_run ''failed'' (Some ''rate_limited'')"
           and tid' = "''thread-''" and rid = "''run''" and e = "Exception ''refresh failed''"]
      refresh_failure_keeps_first_run
        [OF run2, where tid = "''thread-''" and aid = "''agent-''"
           and ?run0.0 = "stub_run ''queued'' None"
           and tid' = "''thread-''" and rid = "''run''" and e = "Exception ''refresh failed''"]
    by (simp add: request_stale_failed_eval request_stale_queued_eval stub_run_def)
qed

subsection \<open>Threads and agents across requests\<close>

lemma thread_wp:
  "wp (search p env query) (\<lambda>out (s', tr).
     \<forall>payload. out = Inr payload \<longrightarrow> map fst payload = success_keys \<longrightarrow>
       (\<exists>t. filter (\<lambda>ev. call_name ev = ''agents.threads.create'') tr = [ThreadsCreate (Inr t)]
          \<and> map_of payload ''thread_id'' = Some (JStr (thread_id t))))
     (s, [])"
  by (simp add: search_defs wp_rules success_keys_def split: sum.split option.split)

lemma agent_choice_wp:
  "wp (search p env query) (\<lambda>out (s', tr).
     (\<forall>agents. ListAgents (Inr agents) \<in> set tr \<longrightarrow>
        (\<exists>a\<in>set agents. agent_name a = env ''AGENT_NAME'') \<longrightarrow>
        (\<forall>args ans. CreateAgent args ans \<notin> set tr))
     \<and> ((\<forall>agents. ListAgents (Inr agents) \<notin> set tr) \<longrightarrow>
          (\<forall>args ans. CreateAgent args ans \<notin> set tr)))
     (s, [])"
  by (simp add: search_defs wp_rules find_agent_None split: sum.split option.split)

text \<open>
  C9. Take two requests with the same query, the second starting in the state of the
  platform that the first one left, both returning the six fields of success, on a
  platform whose listing of agents holds an agent of the configured name each time.
  Each request calls \<^verbatim>\<open>threads.create\<close> exactly once and returns the id of the thread it
  got from that call; so when the platform gives the two new threads different ids, the
  two \<^verbatim>\<open>thread_id\<close> fields differ. Neither request calls \<^verbatim>\<open>create_agent\<close>, and the handler
  has no call that updates or deletes an agent (\<open>event\<close> lists every call it makes).
\<close>

theorem sequential_requests_use_fresh_threads:
  assumes "search p env query (s0, []) = (Inr payload1, (s1, tr1))"
    and "search p env query (s1, []) = (Inr payload2, (s2, tr2))"
    and "map fst payload1 = success_keys" and "map fst payload2 = success_keys"
    and "\<forall>agents. ListAgents (Inr agents) \<in> set tr1 \<union> set tr2 \<longrightarrow>
           (\<exists>a\<in>set agents. agent_name a = env ''AGENT_NAME'')"
    and "\<forall>t1 t2. ThreadsCreate (Inr t1) \<in> set tr1 \<longrightarrow> ThreadsCreate (Inr t2) \<in> set tr2 \<longrightarrow>
           thread_id t1 \<noteq> thread_id t2"
  shows "(\<exists>t1 t2.
            filter (\<lambda>ev. call_name ev = ''agents.threads.create'') tr1 = [ThreadsCreate (Inr t1)]
            \<and> filter (\<lambda>ev. call_name ev = ''agents.threads.create'') tr2 = [ThreadsCreate (Inr t2)]
            \<and> map_of payload1 ''thread_id'' = Some (JStr (thread_id t1))
            \<and> map_of payload2 ''thread_id'' = Some (JStr (thread_id t2)))
         \<and> map_of payload1 ''thread_id'' \<noteq> map_of payload2 ''thread_id''
         \<and> (\<forall>args ans. CreateAgent args ans \<notin> set tr1 \<union> set tr2)"
proof -
  from wpD [OF thread_wp assms(1)] assms(3) obtain t1 where
    t1: "filter (\<lambda>ev. call_name ev = ''agents.threads.create'') tr1 = [ThreadsCreate (Inr t1)]"
    and p1: "map_of payload1 ''thread_id'' = Some (JStr (thread_id t1))"
    by auto
  from wpD [OF thread_wp assms(2)] assms(4) obtain t2 where
    t2: "filter (\<lambda>ev. call_name ev = ''agents.threads.create'') tr2 = [ThreadsCreate (Inr t2)]"
    and p2: "map_of payload2 ''thread_id'' = Some (JStr (thread_id t2))"
    by auto
  from t1 have "ThreadsCreate (Inr t1) \<in> set (filter (\<lambda>ev. call_name ev = ''agents.threads.create'') tr1)"
    by simp
  then have m1: "ThreadsCreate (Inr t1) \<in> set tr1" by simp
  from t2 have "ThreadsCreate (Inr t2) \<in> set (filter (\<lambda>ev. call_name ev = ''agents.threads.create'') tr2)"
    by simp
  then have m2: "ThreadsCreate (Inr t2) \<in> set tr2" by simp
  from assms(6) m1 m2 have "thread_id t1 \<noteq> thread_id t2" by blast
  with p1 p2 have differ: "map_of payload1 ''thread_id'' \<noteq> map_of payload2 ''thread_id''"
    by simp
  from wpD [OF agent_choice_wp assms(1)] assms(5)
  have c1: "\<forall>args ans. CreateAgent args ans \<notin> set tr1" by simp blast
  from wpD [OF agent_choice_wp assms(2)] assms(5)
  have c2: "\<forall>args ans. CreateAgent args ans \<notin> set tr2" by simp blast
  from t1 t2 p1 p2 differ c1 c2 show ?thesis by auto
qed

lemma request_first_eval:
  "request_first =
     (Inr [(''query'', JStr ''capital of France?''), (''agent_id'', JStr ''a1''),
           (''thread_id'', JStr ''thread-''), (''run_id'', JStr ''run''),
           (''run_status'', JStr ''completed''), (''assistant_response'', JStr ''Paris.'')],
      \<lparr>stub_agents = [\<lparr>agent_id = ''a1'', agent_name = Some ''searcher''\<rparr>],
        stub_threads = 1\<rparr>,
      [DefaultAzureCredential (Inr ()),
       AIProjectClient ''https://project.example'' (Inr ()),
       ClientEnter (Inr ()),
       ConnectionsGet ''bing'' (Inr \<lparr>connection_id = ''conn-bing''\<rparr>),
       ListAgents (Inr [\<lparr>agent_id = ''a1'', agent_name = Some ''searcher''\<rparr>]),
       ThreadsCreate (Inr \<lparr>thread_id = ''thread-''\<rparr>),
       MessagesCreate ''thread-'' ''user'' ''capital of France?''
         (Inr (text_message ''user'' ''capital of France?'' 0)),
       RunsCreate ''thread-'' ''a1'' (Inr (stub_run ''queued'' None)),
       Sleep 7,
       RunsGet ''thread-'' ''run'' (Inr (stub_run ''completed'' None)),
       MessagesList ''thread-''
         (Inr [text_message ''user'' ''capital of France?'' 1,
               text_message ''assistant'' ''Paris.'' 2]),
       ClientExit (Inr ())])"
  by (simp add: request_first_def run_defs stub_defs)

lemma request_second_eval:
  "request_second =
     (Inr [(''query'', JStr ''capital of France?''), (''agent_id'', JStr ''a1''),
           (''thread_id'', JStr ''thread-i''), (''run_id'', JStr ''run''),
           (''run_status'', JStr ''completed''), (''assistant_response'', JStr ''Paris.'')],
      \<lparr>stub_agents = [\<lparr>agent_id = ''a1'', agent_name = Some ''searcher''\<rparr>],
        stub_threads = 2\<rparr>,
      [DefaultAzureCredential (Inr ()),
       AIProjectClient ''https://project.example'' (Inr ()),
       ClientEnter (Inr ()),
       ConnectionsGet ''bing'' (Inr \<lparr>connection_id = ''conn-bing''\<rparr>),
       ListAgents (Inr [\<lparr>agent_id = ''a1'', agent_name = Some ''searcher''\<rparr>]),
       ThreadsCreate (Inr \<lparr>thread_id = ''thread-i''\<rparr>),
       MessagesCreate ''thread-i'' ''user'' ''capital of France?''
         (Inr (text_message ''user'' ''capital of France?'' 0)),
       RunsCreate ''thread-i'' ''a1'' (Inr (stub_run ''queued'' None)),
       Sleep 7,
       RunsGet ''thread-i'' ''run'' (Inr (stub_run ''completed'' None)),
       MessagesList ''thread-i''
         (Inr [text_message ''user'' ''capital of France?'' 1,
               text_message ''assistant'' ''Paris.'' 2]),
       ClientExit (Inr ())])"
  by (simp add: request_second_def request_first_eval) (simp add: run_defs stub_defs)

theorem sequential_requests_use_fresh_threads_witness:
  "map fst (projr (fst request_first)) = success_keys
   \<and> map fst (projr (fst request_second)) = success_keys
   \<and> ListAgents (Inr [\<lparr>agent_id = ''a1'', agent_name = Some ''searcher''\<rparr>])
       \<in> set (snd (snd request_first))
   \<and> ListAgents (Inr [\<lparr>agent_id = ''a1'', agent_name = Some ''searcher''\<rparr>])
       \<in> set (snd (snd request_second))
   \<and> agent_name \<lparr>agent_id = ''a1'', agent_name = Some ''searcher''\<rparr> = stub_env ''AGENT_NAME''
   \<and> ThreadsCreate (Inr \<lparr>thread_id = ''thread-''\<rparr>) \<in> set (snd (snd request_first))
   \<and> ThreadsCreate (Inr \<lparr>thread_id = ''thread-i''\<rparr>) \<in> set (snd (snd request_second))
   \<and> map_of (projr (fst request_first)) ''thread_id'' = Some (JStr ''thread-'')
   \<and> map_of (projr (fst request_second)) ''thread_id'' = Some (JStr ''thread-i'')
   \<and> map_of (projr (fst request_first)) ''thread_id''
       \<noteq> map_of (projr (fst request_second)) ''thread_id''"
proof -
  have run1: "search (stub (stub_run ''queued'' None) (Inr (stub_run ''completed'' None))
                        (Inr [text_message ''user'' ''capital of France?'' 1,
                              text_message ''assistant'' ''Paris.'' 2]))
                stub_env ''capital of France?''
                (stub_start [\<lparr>agent_id = ''a1'', agent_name = Some ''searcher''\<rparr>], [])
              = (Inr (projr (fst request_first)), fst (snd request_first),
                 snd (snd request_first))"
    by (simp add: request_first_def [symmetric] request_first_eval)
  have run2: "search (stub (stub_run ''queued'' None) (Inr (stub_run ''completed'' None))
                        (Inr [text_message ''user'' ''capital of France?'' 1,
                              text_message ''assistant'' ''Paris.'' 2]))
                stub_env ''capital of France?'' (fst (snd request_first), [])
              = (Inr (projr (fst request_second)), fst (snd request_second),
                 snd (snd request_second))"
    by (simp add: request_second_def [symmetric] request_second_eval)
  show ?thesis
    using sequential_requests_use_fresh_threads [OF run1 run2]
    by (simp add: request_first_eval request_second_eval success_keys_def stub_env_def)
qed


subsection \<open>The settings that are not validated\<close>

lemma config_wp:
  assumes "missing_vars env = []"
  shows "wp (search p env query) (\<lambda>out (s', tr).
           (\<exists>ans. DefaultAzureCredential ans \<in> set tr)
           \<and> (\<forall>args ans. CreateAgent args ans \<in> set tr \<longrightarrow>
                arg_name args = env ''AGENT_NAME''
                \<and> arg_instructions args = env ''AGENT_INSTRUCTIONS'')) (s, [])"
  using assms
  by (simp add: search_defs wp_rules split: sum.split option.split)

lemma missing_vars_ignores_agent_settings:
  "missing_vars (env(''AGENT_NAME'' := x, ''AGENT_INSTRUCTIONS'' := y)) = missing_vars env"
  by (simp add: missing_vars_def)

text \<open>
  C10 (as the code has it). The validation reads \<^verbatim>\<open>PROJECT_CONNECTION_STRING\<close> and
  \<^verbatim>\<open>BING_RESOURCE_NAME\<close> only: whatever \<^verbatim>\<open>AGENT_NAME\<close> and \<^verbatim>\<open>AGENT_INSTRUCTIONS\<close> are, set
  or not, the list of missing variables is the same. With the two required ones set, the
  handler returns a payload, never raises, and starts its calls; every \<^verbatim>\<open>create_agent\<close>
  it makes gets the name and the instructions as the environment has them, \<^verbatim>\<open>None\<close> when
  unset. With \<^verbatim>\<open>AGENT_NAME\<close> unset the lookup of line 83 compares each listed name with
  \<^verbatim>\<open>None\<close>: when every listed agent has a name, none matches and an agent is created;
  when a listed agent has no name (the name \<^verbatim>\<open>None\<close>), it matches and is reused, and no
  agent is created.
\<close>

theorem unset_agent_name_is_compared_as_null:
  assumes "search p env query (s, []) = (out, (s', tr))"
    and "\<not> falsy (env ''PROJECT_CONNECTION_STRING'')"
    and "\<not> falsy (env ''BING_RESOURCE_NAME'')"
  shows "(\<exists>payload. out = Inr payload)
         \<and> (\<exists>ans. DefaultAzureCredential ans \<in> set tr)
         \<and> missing_vars (env(''AGENT_NAME'' := x, ''AGENT_INSTRUCTIONS'' := y)) = missing_vars env
         \<and> (\<forall>args ans. CreateAgent args ans \<in> set tr \<longrightarrow>
               arg_name args = env ''AGENT_NAME''
               \<and> arg_instructions args = env ''AGENT_INSTRUCTIONS'')
         \<and> (\<forall>agents. ListAgents (Inr agents) \<in> set tr \<longrightarrow> env ''AGENT_NAME'' = None \<longrightarrow>
               ((\<forall>a\<in>set agents. agent_name a \<noteq> None) \<longrightarrow>
                  (\<exists>args ans. CreateAgent args ans \<in> set tr))
               \<and> ((\<exists>a\<in>set agents. agent_name a = None) \<longrightarrow>
                    (\<forall>args ans. CreateAgent args ans \<notin> set tr)))"
proof -
  from assms(2,3) have valid: "missing_vars env = []" by (simp add: missing_vars_Nil)
  from wpD [OF search_boundary [OF valid] assms(1)]
  have a: "\<exists>payload. out = Inr payload" by simp
  from wpD [OF config_wp [OF valid] assms(1)]
  have b: "\<exists>ans. DefaultAzureCredential ans \<in> set tr"
    and c: "\<forall>args ans. CreateAgent args ans \<in> set tr \<longrightarrow>
              arg_name args = env ''AGENT_NAME''
              \<and> arg_instructions args = env ''AGENT_INSTRUCTIONS''"
    by simp_all
  have d: "(\<forall>a\<in>set agents. agent_name a \<noteq> None) \<longrightarrow> (\<exists>args ans. CreateAgent args ans \<in> set tr)"
    if "ListAgents (Inr agents) \<in> set tr" and "env ''AGENT_NAME'' = None" for agents
    using wpD [OF create_wp assms(1), of agents] that by auto
  have e: "(\<exists>a\<in>set agents. agent_name a = None) \<longrightarrow> (\<forall>args ans. CreateAgent args ans \<notin> set tr)"
    if "ListAgents (Inr agents) \<in> set tr" and "env ''AGENT_NAME'' = None" for agents
    using wpD [OF agent_choice_wp assms(1)] that by simp
  from a b c d e show ?thesis
    by (simp only: missing_vars_ignores_agent_settings) blast
qed

lemma request_unnamed_first_eval:
  "request_unnamed_first =
     (Inr [(''query'', JStr ''capital of France?''), (''agent_id'', JStr ''agent-i''),
           (''thread_id'', JStr ''thread-''), (''run_id'', JStr ''run''),
           (''run_status'', JStr ''completed''), (''assistant_response'', JStr ''Paris.'')],
      \<lparr>stub_agents = [\<lparr>agent_id = ''a0'', agent_name = Some ''other''\<rparr>,
                       \<lparr>agent_id = ''agent-i'', agent_name = None\<rparr>],
        stub_threads = 1\<rparr>,
      [DefaultAzureCredential (Inr ()),
       AIProjectClient ''https://project.example'' (Inr ()),
       ClientEnter (Inr ()),
       ConnectionsGet ''bing'' (Inr \<lparr>connection_id = ''conn-bing''\<rparr>),
       ListAgents (Inr [\<lparr>agent_id = ''a0'', agent_name = Some ''other''\<rparr>]),
       CreateAgent \<lparr>arg_model = ''gpt-4.1'', arg_name = None, arg_instructions = None,
                     arg_tools = [BingGrounding ''conn-bing''],
                     arg_headers = [(''x-ms-enable-preview'', ''true'')],
                     arg_temperature = 0\<rparr>
         (Inr \<lparr>agent_id = ''agent-i'', agent_name = None\<rparr>),
       ThreadsCreate (Inr \<lparr>thread_id = ''thread-''\<rparr>),
       MessagesCreate ''thread-'' ''user'' ''capital of France?''
         (Inr (text_message ''user'' ''capital of France?'' 0)),
       RunsCreate ''thread-'' ''agent-i'' (Inr (stub_run ''queued'' None)),
       Sleep 7,
       RunsGet ''thread-'' ''run'' (Inr (stub_run ''completed'' None)),
       MessagesList ''thread-''
         (Inr [text_message ''user'' ''capital of France?'' 1,
               text_message ''assistant'' ''Paris.'' 2]),
       ClientExit (Inr ())])"
  by (simp add: request_unnamed_first_def stub_env_unnamed_def run_defs stub_defs)

lemma request_unnamed_second_eval:
  "request_unnamed_second =
     (Inr [(''query'', JStr ''capital of France?''), (''agent_id'', JStr ''agent-i''),
           (''thread_id'', JStr ''thread-i''), (''run_id'', JStr ''run''),
           (''run_status'', JStr ''completed''), (''assistant_response'', JStr ''Paris.'')],
      \<lparr>stub_agents = [\<lparr>agent_id = ''a0'', agent_name = Some ''other''\<rparr>,
                       \<lparr>agent_id = ''agent-i'', agent_name = None\<rparr>],
        stub_threads = 2\<rparr>,
      [DefaultAzureCredential (Inr ()),
       AIProjectClient ''https://project.example'' (Inr ()),
       ClientEnter (Inr ()),
       ConnectionsGet ''bing'' (Inr \<lparr>connection_id = ''conn-bing''\<rparr>),
       ListAgents (Inr [\<lparr>agent_id = ''a0'', agent_name = Some ''other''\<rparr>,
                        \<lparr>agent_id = ''agent-i'', agent_name = None\<rparr>]),
       ThreadsCreate (Inr \<lparr>thread_id = ''thread-i''\<rparr>),
       MessagesCreate ''thread-i'' ''user'' ''capital of France?''
         (Inr (text_message ''user'' ''capital of France?'' 0)),
       RunsCreate ''thread-i'' ''agent-i'' (Inr (stub_run ''queued'' None)),
       Sleep 7,
       RunsGet ''thread-i'' ''run'' (Inr (stub_run ''completed'' None)),
       MessagesList ''thread-i''
         (Inr [text_message ''user'' ''capital of France?'' 1,
               text_message ''assistant'' ''Paris.'' 2]),
       ClientExit (Inr ())])"
  by (simp add: request_unnamed_second_def request_unnamed_first_eval)
     (simp add: stub_env_unnamed_def run_defs stub_defs)

theorem unset_agent_name_is_compared_as_null_witness:
  "\<not> falsy (stub_env_unnamed ''PROJECT_CONNECTION_STRING'')
   \<and> \<not> falsy (stub_env_unnamed ''BING_RESOURCE_NAME'')
   \<and> stub_env_unnamed ''AGENT_NAME'' = None
   \<and> stub_env_unnamed ''AGENT_INSTRUCTIONS'' = None
   \<and> ListAgents (Inr [\<lparr>agent_id = ''a0'', agent_name = Some ''other''\<rparr>])
       \<in> set (snd (snd request_unnamed_first))
   \<and> agent_name \<lparr>agent_id = ''a0'', agent_name = Some ''other''\<rparr> \<noteq> None
   \<and> CreateAgent \<lparr>arg_model = ''gpt-4.1'', arg_name = None, arg_instructions = None,
                    arg_tools = [BingGrounding ''conn-bing''],
                    arg_headers = [(''x-ms-enable-preview'', ''true'')],
                    arg_temperature = 0\<rparr>
        (Inr \<lparr>agent_id = ''agent-i'', agent_name = None\<rparr>)
       \<in> set (snd (snd request_unnamed_first))
   \<and> ListAgents (Inr [\<lparr>agent_id = ''a0'', agent_name = Some ''other''\<rparr>,
                       \<lparr>agent_id = ''agent-i'', agent_name = None\<rparr>])
       \<in> set (snd (snd request_unnamed_second))
   \<and> agent_name \<lparr>agent_id = ''agent-i'', agent_name = None\<rparr> = None
   \<and> filter (\<lambda>ev. call_name ev = ''agents.create_agent'') (snd (snd request_unnamed_second)) = []"
proof -
  have run1: "search (stub (stub_run ''queued'' None) (Inr (stub_run ''completed'' None))
                        (Inr [text_message ''user'' ''capital of France?'' 1,
                              text_message ''assistant'' ''Paris.'' 2]))
                stub_env_unnamed ''capital of France?''
                (stub_start [\<lparr>agent_id = ''a0'', agent_name = Some ''other''\<rparr>], [])
              = (fst request_unnamed_first, fst (snd request_unnamed_first),
                 snd (snd request_unnamed_first))"
    by (simp add: request_unnamed_first_def)
  have run2: "search (stub (stub_run ''queued'' None) (Inr (stub_run ''completed'' None))
                        (Inr [text_message ''user'' ''capital of France?'' 1,
                              text_message ''assistant'' ''Paris.'' 2]))
                stub_env_unnamed ''capital of France?'' (fst (snd request_unnamed_first), [])
              = (fst request_unnamed_second, fst (snd request_unnamed_second),
                 snd (snd request_unnamed_second))"
    by (simp add: request_unnamed_second_def)
  show ?thesis
    using unset_agent_name_is_compared_as_null [OF run1]
      unset_agent_name_is_compared_as_null [OF run2]
    by (simp add: request_unnamed_first_eval request_unnamed_second_eval stub_env_unnamed_def)
qed

text \<open>
  C10 as it is written fails in its last part: a reuse does occur with \<^verbatim>\<open>AGENT_NAME\<close> unset.
  The first of the two requests created an agent without a name; the second one finds it
  in the listing, creates nothing and runs it.
\<close>

theorem unset_agent_name_reuses_nameless_agent:
  "stub_env_unnamed ''AGENT_NAME'' = None
   \<and> CreateAgent \<lparr>arg_model = ''gpt-4.1'', arg_name = None, arg_instructions = None,
                    arg_tools = [BingGrounding ''conn-bing''],
                    arg_headers = [(''x-ms-enable-preview'', ''true'')],
                    arg_temperature = 0\<rparr>
        (Inr \<lparr>agent_id = ''agent-i'', agent_name = None\<rparr>)
       \<in> set (snd (snd request_unnamed_first))
   \<and> find_agent [\<lparr>agent_id = ''a0'', agent_name = Some ''other''\<rparr>,
                  \<lparr>agent_id = ''agent-i'', agent_name = None\<rparr>] (stub_env_unnamed ''AGENT_NAME'')
       = Some \<lparr>agent_id = ''agent-i'', agent_name = None\<rparr>
   \<and> map_of (projr (fst request_unnamed_second)) ''agent_id'' = Some (JStr ''agent-i'')
   \<and> map (call_name) (snd (snd request_unnamed_second)) =
       [''DefaultAzureCredential'', ''AIProjectClient'', ''__enter__'', ''connections.get'',
        ''agents.list_agents'', ''agents.threads.create'', ''agents.messages.create'',
        ''agents.runs.create'', ''time.sleep'', ''agents.runs.get'', ''agents.messages.list'',
        ''__exit__'']"
  by (simp add: request_unnamed_first_eval request_unnamed_second_eval stub_env_unnamed_def
        find_agent_def)


end
